theory Spec2Isabelle
  imports Complex_Main
begin

section \<open>Python values, exceptions and the layer framework\<close>

text \<open>
  The module \<^verbatim>\<open>networks.py\<close> assembles Keras layer graphs. Its functions are embedded
  as HOL functions that return either the exception the Python code raises (\<open>Inl\<close>) or
  the object it returns (\<open>Inr\<close>).

  Channel counts, filter counts and patch dimensions are sizes of tensor axes and are
  natural numbers; the level, block and layer counts are Python integers (\<open>int\<close>), since
  the code gives the values \<open>0\<close> and \<open>-1\<close> of \<^verbatim>\<open>n_layers\<close> a meaning of their own.
\<close>

datatype pyexc = NotImplementedError | ImportError | TypeError | IndexError | FrameworkError

text \<open>
  \<open>FrameworkError\<close> stands for whatever exception the framework raises when it refuses
  a call (a \<^verbatim>\<open>ValueError\<close> for incompatible shapes, for instance). A Python number is
  an integer or a float; the value of a float is not modelled.
\<close>

datatype pynum = PyInt int | PyFloat

datatype pyarg = PyNone | PyStr string | PyBool bool

text \<open>
  The keyword arguments of a convolution layer, as the code passes them. An argument the
  code leaves out is \<open>None\<close> here (the framework's default applies); \<^verbatim>\<open>activation\<close>
  defaults to Python's \<^verbatim>\<open>None\<close>.
\<close>

record conv_args =
  filters :: pynum
  kernel_size :: "nat \<times> nat"
  strides :: "(nat \<times> nat) option"
  padding :: "string option"
  use_bias :: "bool option"
  activation :: pyarg

definition conv_kwargs :: "pynum \<Rightarrow> nat \<times> nat \<Rightarrow> conv_args" where
  "conv_kwargs f k =
     \<lparr>filters = f, kernel_size = k, strides = None, padding = None, use_bias = None,
      activation = PyNone\<rparr>"

datatype norm_class = BatchNormalization | InstanceNormalization

datatype layer =
    InputLayer "nat list" "string option"
  | Conv2D conv_args
  | Conv2DTranspose conv_args
  | Normalization norm_class int
  | LeakyReLU rat
  | Dropout rat
  | ZeroPadding2D "nat list"
  | Activation string
  | Concatenate int
  | Add

text \<open>
  A graph of the functional API is the list of its nodes in creation order; a symbolic
  tensor is the index of the node that produced it. A Python variable of the builders
  holds a tensor or a layer object.
\<close>

record node =
  node_layer :: layer
  inbound :: "nat list"

type_synonym graph = "node list"

datatype pyval = Tensor nat | LayerObj layer

datatype model = Functional nat nat graph | Sequential "layer list"

datatype pyobj = ModelObj model | ExcObj pyexc

text \<open>
  The framework is a parameter of every builder: the backend's image data format, whether
  \<^verbatim>\<open>keras_contrib\<close> can be imported, and which calls the framework accepts (it validates
  arguments and shapes when a graph is constructed). Nothing is assumed about \<open>accepts\<close>.
\<close>

datatype fw_call =
    New layer
  | Apply graph layer "nat list"
  | NewModel graph nat nat
  | SeqAdd "layer list" layer

record framework =
  channels_first :: bool
  contrib_installed :: bool
  accepts :: "fw_call \<Rightarrow> bool"

subsection \<open>Construction as state passing with exceptions\<close>

type_synonym ('s, 'a) build = "'s \<Rightarrow> pyexc + ('a \<times> 's)"

definition ret :: "'a \<Rightarrow> ('s, 'a) build" where
  "ret x s = Inr (x, s)"

definition raise :: "pyexc \<Rightarrow> ('s, 'a) build" where
  "raise e s = Inl e"

definition and_then :: "('s, 'a) build \<Rightarrow> ('a \<Rightarrow> ('s, 'b) build) \<Rightarrow> ('s, 'b) build" where
  "and_then m f s = (case m s of Inl e \<Rightarrow> Inl e | Inr (x, s') \<Rightarrow> f x s')"

fun tensors_of :: "pyval list \<Rightarrow> nat list option" where
  "tensors_of [] = Some []"
| "tensors_of (Tensor t # vs) = map_option ((#) t) (tensors_of vs)"
| "tensors_of (LayerObj l # vs) = None"

text \<open>\<^verbatim>\<open>L(args)\<close>: a layer object is created.\<close>

definition new :: "framework \<Rightarrow> layer \<Rightarrow> (graph, pyval) build" where
  "new fw l g = (if accepts fw (New l) then Inr (LayerObj l, g) else Inl FrameworkError)"

text \<open>
  \<^verbatim>\<open>L(args)(x)\<close>: a layer is created and called. The framework calls layers on symbolic
  tensors only; on anything else (a layer object, for instance) the call raises.
\<close>

definition call :: "framework \<Rightarrow> layer \<Rightarrow> pyval list \<Rightarrow> (graph, pyval) build" where
  "call fw l args g =
     (if \<not> accepts fw (New l) then Inl FrameworkError
      else case tensors_of args of
             None \<Rightarrow> Inl FrameworkError
           | Some ts \<Rightarrow>
               if accepts fw (Apply g l ts)
               then Inr (Tensor (length g), g @ [\<lparr>node_layer = l, inbound = ts\<rparr>])
               else Inl FrameworkError)"

text \<open>\<^verbatim>\<open>Model(inputs=i, outputs=out)\<close>.\<close>

definition Model :: "framework \<Rightarrow> pyval \<Rightarrow> pyval \<Rightarrow> (graph, pyobj) build" where
  "Model fw i out g =
     (case (i, out) of
        (Tensor a, Tensor b) \<Rightarrow>
          if accepts fw (NewModel g a b) then Inr (ModelObj (Functional a b g), g)
          else Inl FrameworkError
      | _ \<Rightarrow> Inl FrameworkError)"

definition run :: "(graph, pyobj) build \<Rightarrow> pyexc + pyobj" where
  "run m = (case m [] of Inl e \<Rightarrow> Inl e | Inr (x, g) \<Rightarrow> Inr x)"

text \<open>\<^verbatim>\<open>model.add(x)\<close> on a \<^verbatim>\<open>Sequential\<close> model, and the model that is returned.\<close>

definition seq_add :: "framework \<Rightarrow> layer \<Rightarrow> (layer list, unit) build" where
  "seq_add fw l ls =
     (if accepts fw (New l) \<and> accepts fw (SeqAdd ls l) then Inr ((), ls @ [l])
      else Inl FrameworkError)"

definition run_seq :: "(layer list, unit) build \<Rightarrow> pyexc + pyobj" where
  "run_seq m = (case m [] of Inl e \<Rightarrow> Inl e | Inr (x, ls) \<Rightarrow> Inr (ModelObj (Sequential ls)))"

text \<open>\<^verbatim>\<open>xs[i]\<close> on a Python list; an index below zero is taken from the end of the list.\<close>

definition py_index :: "'a list \<Rightarrow> int \<Rightarrow> ('s, 'a) build" where
  "py_index xs i =
     (if 0 \<le> i \<and> i < int (length xs) then ret (xs ! nat i)
      else if i < 0 \<and> - int (length xs) \<le> i then ret (xs ! nat (int (length xs) + i))
      else raise IndexError)"

section \<open>get_norm_layer\<close>

text \<open>
  The function returns a layer class, raises \<^verbatim>\<open>ImportError\<close>, or, for an unknown
  name, \<^emph>\<open>returns\<close> a \<^verbatim>\<open>NotImplementedError\<close> instance (line 24 has \<^verbatim>\<open>return\<close>, not
  \<^verbatim>\<open>raise\<close>).
\<close>

datatype norm_value = NormClass norm_class | ExcValue pyexc

definition get_norm_layer :: "framework \<Rightarrow> string \<Rightarrow> pyexc + norm_value" where
  "get_norm_layer fw layer_name =
     (if layer_name = ''batch'' then Inr (NormClass BatchNormalization)
      else if layer_name = ''instance'' then
        (if contrib_installed fw then Inr (NormClass InstanceNormalization)
         else Inl ImportError)
      else Inr (ExcValue NotImplementedError))"

text \<open>
  \<^verbatim>\<open>norm_layer(axis=channel_axis)\<close>: calling the class makes a layer; calling an
  exception instance raises \<^verbatim>\<open>TypeError\<close> (the object is not callable).
\<close>

definition norm_new :: "norm_value \<Rightarrow> int \<Rightarrow> pyexc + layer" where
  "norm_new norm_layer axis =
     (case norm_layer of
        NormClass c \<Rightarrow> Inr (Normalization c axis)
      | ExcValue e \<Rightarrow> Inl TypeError)"

definition norm_call :: "framework \<Rightarrow> norm_value \<Rightarrow> int \<Rightarrow> pyval \<Rightarrow> (graph, pyval) build" where
  "norm_call fw norm_layer axis x =
     (case norm_new norm_layer axis of
        Inl e \<Rightarrow> raise e
      | Inr l \<Rightarrow> call fw l [x])"

definition norm_add :: "framework \<Rightarrow> norm_value \<Rightarrow> int \<Rightarrow> (layer list, unit) build" where
  "norm_add fw norm_layer axis =
     (case norm_new norm_layer axis of
        Inl e \<Rightarrow> raise e
      | Inr l \<Rightarrow> seq_add fw l)"

section \<open>build_unet\<close>

text \<open>
  The first loop, \<^verbatim>\<open>for i in range(1, n_levels - 1)\<close>, over the list of its indices.
  The loop carries \<^verbatim>\<open>prev\<close> and \<^verbatim>\<open>nodes_for_concat\<close>.
\<close>

fun unet_down ::
  "framework \<Rightarrow> nat \<Rightarrow> nat \<times> nat \<Rightarrow> bool \<Rightarrow> norm_value \<Rightarrow> int \<Rightarrow> int list \<Rightarrow> pyval \<Rightarrow> pyval list
   \<Rightarrow> (graph, pyval \<times> pyval list) build" where
  "unet_down fw init_num_filters ks ub norm_layer channel_axis [] prev nodes = ret (prev, nodes)"
| "unet_down fw init_num_filters ks ub norm_layer channel_axis (i # rest) prev nodes =
     and_then (call fw (LeakyReLU (2 / 10)) [prev]) (\<lambda>relu.
     and_then (call fw (Conv2D ((conv_kwargs (PyInt (int init_num_filters * max (2 ^ nat i) 8)) ks)
                 \<lparr>strides := Some (2, 2), padding := Some ''same'', use_bias := Some ub\<rparr>)) [relu]) (\<lambda>conv.
     and_then (norm_call fw norm_layer channel_axis conv) (\<lambda>prev'.
     unet_down fw init_num_filters ks ub norm_layer channel_axis rest prev' (nodes @ [prev']))))"

text \<open>
  The second loop, \<^verbatim>\<open>for i in reversed(range(1, n_levels - 1))\<close>. With
  \<^verbatim>\<open>autoencoder\<close> false its body calls
  \<^verbatim>\<open>concatenate(norm, [nodes_for_concat[i]], axis=channel_axis)\<close>: the list is bound to the
  second positional parameter of \<^verbatim>\<open>concatenate(inputs, axis=-1, **kwargs)\<close>, which the
  keyword \<^verbatim>\<open>axis\<close> names again, so Python raises \<^verbatim>\<open>TypeError\<close> once the arguments are
  evaluated.
\<close>

fun unet_up ::
  "framework \<Rightarrow> nat \<Rightarrow> nat \<times> nat \<Rightarrow> bool \<Rightarrow> norm_value \<Rightarrow> int \<Rightarrow> bool \<Rightarrow> rat \<Rightarrow> bool \<Rightarrow> pyval list
   \<Rightarrow> int list \<Rightarrow> pyval \<Rightarrow> (graph, pyval) build" where
  "unet_up fw init_num_filters ks ub norm_layer channel_axis use_dropout dropout_rate autoencoder
     nodes [] deconv = ret deconv"
| "unet_up fw init_num_filters ks ub norm_layer channel_axis use_dropout dropout_rate autoencoder
     nodes (i # rest) deconv =
     and_then (norm_call fw norm_layer channel_axis deconv) (\<lambda>norm.
     and_then (if use_dropout then call fw (Dropout dropout_rate) [norm] else ret norm) (\<lambda>norm.
     and_then (if \<not> autoencoder
               then and_then (py_index nodes i) (\<lambda>skip. raise TypeError)
               else ret norm) (\<lambda>norm.
     and_then (call fw (Activation ''relu'') [norm]) (\<lambda>relu.
     and_then (call fw (Conv2DTranspose
                 ((conv_kwargs (PyInt (int init_num_filters * max (2 ^ nat i) 8)) ks)
                 \<lparr>strides := Some (2, 2), padding := Some ''same'', use_bias := Some ub\<rparr>)) [relu]) (\<lambda>deconv'.
     unet_up fw init_num_filters ks ub norm_layer channel_axis use_dropout dropout_rate autoencoder
       nodes rest deconv')))))"

text \<open>
  \<^verbatim>\<open>2 ** n_levels - 1\<close> is an integer for \<^verbatim>\<open>n_levels >= 0\<close>. For a negative
  \<^verbatim>\<open>n_levels\<close> it is a float below \<open>0\<close>, and \<^verbatim>\<open>max(..., 8)\<close> is the integer \<open>8\<close>; the
  term \<open>max (2 ^ nat n_levels - 1) 8\<close> is \<open>8\<close> there as well.
\<close>

definition build_unet ::
  "framework \<Rightarrow> nat list \<Rightarrow> nat \<Rightarrow> nat \<Rightarrow> nat \<Rightarrow> string \<Rightarrow> int \<Rightarrow> bool \<Rightarrow> rat \<Rightarrow> bool
   \<Rightarrow> pyexc + pyobj" where
  "build_unet fw patch_size input_nc output_nc init_num_filters norm_layer n_levels use_dropout
     dropout_rate autoencoder =
     (let kernel_size = (4, 4);
          input_shape = (if channels_first fw then input_nc # patch_size
                         else patch_size @ [input_nc]);
          channel_axis = (if channels_first fw then 1 else - 1);
          ub = (norm_layer = ''instance'')
      in case get_norm_layer fw norm_layer of
           Inl e \<Rightarrow> Inl e
         | Inr norm_layer' \<Rightarrow>
      run (
        and_then (call fw (InputLayer input_shape (Some ''input1'')) []) (\<lambda>input_img.
        and_then (call fw (Conv2D ((conv_kwargs (PyInt (int init_num_filters)) kernel_size)
                    \<lparr>strides := Some (2, 2), padding := Some ''same'', use_bias := Some ub\<rparr>))
                    [input_img]) (\<lambda>prev.
        and_then (unet_down fw init_num_filters kernel_size ub norm_layer' channel_axis
                    [1 .. n_levels - 2] prev [prev]) (\<lambda>(prev, nodes_for_concat).
        and_then (call fw (LeakyReLU (2 / 10)) [prev]) (\<lambda>relu.
        and_then (call fw (Conv2D
                    ((conv_kwargs (PyInt (int init_num_filters * max (2 ^ nat n_levels - 1) 8))
                       kernel_size)
                    \<lparr>strides := Some (2, 2), padding := Some ''same'', use_bias := Some ub\<rparr>))
                    [relu]) (\<lambda>conv.
        and_then (call fw (Activation ''relu'') [conv]) (\<lambda>relu.
        and_then (call fw (Conv2DTranspose
                    ((conv_kwargs (PyInt (int init_num_filters * max (2 ^ nat n_levels - 2) 8))
                       kernel_size)
                    \<lparr>strides := Some (2, 2), padding := Some ''same'', use_bias := Some ub\<rparr>))
                    [relu]) (\<lambda>deconv.
        and_then (unet_up fw init_num_filters kernel_size ub norm_layer' channel_axis use_dropout
                    dropout_rate autoencoder nodes_for_concat (rev [1 .. n_levels - 2]) deconv)
                    (\<lambda>deconv.
        and_then (norm_call fw norm_layer' channel_axis deconv) (\<lambda>norm.
        and_then (if \<not> autoencoder
                  then and_then (py_index nodes_for_concat 0) (\<lambda>skip.
                         call fw (Concatenate channel_axis) [norm, skip])
                  else ret norm) (\<lambda>norm.
        and_then (call fw (Activation ''relu'') [norm]) (\<lambda>relu.
        and_then (call fw (Conv2D ((conv_kwargs (PyInt (int output_nc)) kernel_size)
                    \<lparr>strides := Some (2, 2), padding := Some ''same'', use_bias := Some ub\<rparr>))
                    [relu]) (\<lambda>conv.
        and_then (call fw (Activation ''tanh'') [conv]) (\<lambda>act.
        Model fw input_img act)))))))))))))))"

section \<open>build_resnet and build_conv_block\<close>

text \<open>
  \<^verbatim>\<open>padding_layer\<close> is a layer class, here a function from the padding tuple to a layer.
  With \<^verbatim>\<open>use_dropout\<close> set, line 168 binds \<^verbatim>\<open>act\<close> to the \<^verbatim>\<open>Dropout\<close> layer object
  itself (the layer is not called), and line 170 passes that object on.
\<close>

definition build_conv_block ::
  "framework \<Rightarrow> pyval \<Rightarrow> nat \<Rightarrow> nat \<times> nat \<Rightarrow> norm_value \<Rightarrow> int \<Rightarrow> (nat list \<Rightarrow> layer) \<Rightarrow> bool \<Rightarrow> rat
   \<Rightarrow> bool \<Rightarrow> (graph, pyval) build" where
  "build_conv_block fw previous num_filters ks norm_layer channel_axis padding_layer use_dropout
     dropout_rate ub =
     and_then (call fw (padding_layer [1, 1, 1, 1]) [previous]) (\<lambda>pad.
     and_then (call fw (Conv2D ((conv_kwargs (PyInt (int num_filters)) ks)
                 \<lparr>use_bias := Some ub\<rparr>)) [pad]) (\<lambda>conv.
     and_then (norm_call fw norm_layer channel_axis conv) (\<lambda>norm.
     and_then (call fw (Activation ''relu'') [norm]) (\<lambda>act.
     and_then (if use_dropout then new fw (Dropout dropout_rate) else ret act) (\<lambda>act.
     and_then (call fw (padding_layer [1, 1, 1, 1]) [act]) (\<lambda>pad.
     and_then (call fw (Conv2D ((conv_kwargs (PyInt (int num_filters)) ks)
                 \<lparr>use_bias := Some ub\<rparr>)) [pad]) (\<lambda>conv.
     and_then (norm_call fw norm_layer channel_axis conv) (\<lambda>norm.
     call fw Add [previous, norm]))))))))"

text \<open>The three loops of \<^verbatim>\<open>build_resnet\<close>; each carries \<^verbatim>\<open>act\<close>.\<close>

fun resnet_down ::
  "framework \<Rightarrow> nat \<Rightarrow> nat \<times> nat \<Rightarrow> norm_value \<Rightarrow> int \<Rightarrow> int list \<Rightarrow> pyval \<Rightarrow> (graph, pyval) build" where
  "resnet_down fw init_num_filters ks norm_layer channel_axis [] act = ret act"
| "resnet_down fw init_num_filters ks norm_layer channel_axis (i # rest) act =
     and_then (call fw (Conv2D ((conv_kwargs (PyInt (int init_num_filters * 2 ^ nat (i + 1))) ks)
                 \<lparr>strides := Some (2, 2), padding := Some ''same''\<rparr>)) [act]) (\<lambda>conv.
     and_then (norm_call fw norm_layer channel_axis conv) (\<lambda>norm.
     and_then (call fw (Activation ''relu'') [norm]) (\<lambda>act'.
     resnet_down fw init_num_filters ks norm_layer channel_axis rest act')))"

fun resnet_blocks ::
  "framework \<Rightarrow> nat \<Rightarrow> nat \<times> nat \<Rightarrow> norm_value \<Rightarrow> int \<Rightarrow> (nat list \<Rightarrow> layer) \<Rightarrow> bool \<Rightarrow> rat \<Rightarrow> bool
   \<Rightarrow> int list \<Rightarrow> pyval \<Rightarrow> (graph, pyval) build" where
  "resnet_blocks fw num_filters ks norm_layer channel_axis padding_layer use_dropout dropout_rate ub
     [] act = ret act"
| "resnet_blocks fw num_filters ks norm_layer channel_axis padding_layer use_dropout dropout_rate ub
     (i # rest) act =
     and_then (build_conv_block fw act num_filters ks norm_layer channel_axis padding_layer
                 use_dropout dropout_rate ub) (\<lambda>act'.
     resnet_blocks fw num_filters ks norm_layer channel_axis padding_layer use_dropout dropout_rate
       ub rest act')"

fun resnet_up ::
  "framework \<Rightarrow> nat \<Rightarrow> nat \<times> nat \<Rightarrow> norm_value \<Rightarrow> int \<Rightarrow> int list \<Rightarrow> pyval \<Rightarrow> (graph, pyval) build" where
  "resnet_up fw init_num_filters ks norm_layer channel_axis [] act = ret act"
| "resnet_up fw init_num_filters ks norm_layer channel_axis (i # rest) act =
     and_then (call fw (Conv2DTranspose
                 ((conv_kwargs (PyInt (int init_num_filters * 2 ^ nat (i + 1))) ks)
                 \<lparr>strides := Some (2, 2), padding := Some ''same''\<rparr>)) [act]) (\<lambda>conv.
     and_then (norm_call fw norm_layer channel_axis conv) (\<lambda>norm.
     and_then (call fw (Activation ''relu'') [norm]) (\<lambda>act'.
     resnet_up fw init_num_filters ks norm_layer channel_axis rest act')))"

text \<open>
  \<^verbatim>\<open>outer_padding_size\<close> is \<^verbatim>\<open>ceil\<close> and \<^verbatim>\<open>floor\<close> of \<^verbatim>\<open>(7 - 1) / 2\<close>, twice. For a
  \<^verbatim>\<open>padding_layer\<close> other than \<^verbatim>\<open>'zero'\<close> line 128 \<^emph>\<open>returns\<close> a
  \<^verbatim>\<open>NotImplementedError\<close> instance.
\<close>

definition build_resnet ::
  "framework \<Rightarrow> nat list \<Rightarrow> nat \<Rightarrow> nat \<Rightarrow> nat \<Rightarrow> string \<Rightarrow> string \<Rightarrow> int \<Rightarrow> bool \<Rightarrow> rat
   \<Rightarrow> pyexc + pyobj" where
  "build_resnet fw patch_size input_nc output_nc init_num_filters norm_layer padding_layer n_blocks
     use_dropout dropout_rate =
     (let outer_kernel_size = (7, 7);
          outer_padding_size =
            [(fst outer_kernel_size - 1 + 1) div 2, (fst outer_kernel_size - 1) div 2,
             (snd outer_kernel_size - 1 + 1) div 2, (snd outer_kernel_size - 1) div 2];
          kernel_size = (3, 3);
          input_shape = (if channels_first fw then input_nc # patch_size
                         else patch_size @ [input_nc]);
          channel_axis = (if channels_first fw then 1 else - 1);
          ub = (norm_layer = ''instance'')
      in case get_norm_layer fw norm_layer of
           Inl e \<Rightarrow> Inl e
         | Inr norm_layer' \<Rightarrow>
      if padding_layer \<noteq> ''zero'' then Inr (ExcObj NotImplementedError)
      else
      (let padding_layer' = ZeroPadding2D; n_downsamples = 2 in
      run (
        and_then (call fw (InputLayer input_shape (Some ''input1'')) []) (\<lambda>input_img.
        and_then (call fw (padding_layer' outer_padding_size) [input_img]) (\<lambda>pad.
        and_then (call fw (Conv2D ((conv_kwargs (PyInt (int init_num_filters)) outer_kernel_size)
                    \<lparr>use_bias := Some ub\<rparr>)) [pad]) (\<lambda>conv.
        and_then (norm_call fw norm_layer' channel_axis conv) (\<lambda>norm.
        and_then (call fw (Activation ''relu'') [norm]) (\<lambda>act.
        and_then (resnet_down fw init_num_filters kernel_size norm_layer' channel_axis
                    [0 .. n_downsamples - 1] act) (\<lambda>act.
        and_then (resnet_blocks fw (init_num_filters * 2 ^ nat n_downsamples) kernel_size
                    norm_layer' channel_axis padding_layer' use_dropout dropout_rate ub
                    [0 .. n_blocks - 1] act) (\<lambda>act.
        and_then (resnet_up fw init_num_filters kernel_size norm_layer' channel_axis
                    (rev [0 .. n_blocks - 1]) act) (\<lambda>act.
        and_then (call fw (padding_layer' outer_padding_size) [act]) (\<lambda>pad.
        and_then (call fw (Conv2D ((conv_kwargs (PyInt (int output_nc)) outer_kernel_size)
                    \<lparr>use_bias := Some ub\<rparr>)) [pad]) (\<lambda>conv.
        and_then (call fw (Activation ''tanh'') [conv]) (\<lambda>act.
        Model fw input_img act))))))))))))))"

section \<open>build_generator_model\<close>

text \<open>
  The dispatch on \<^verbatim>\<open>model_name\<close>. The builders are called without
  \<^verbatim>\<open>dropout_rate\<close>, \<^verbatim>\<open>autoencoder\<close> and \<^verbatim>\<open>padding_layer\<close>, which keep their defaults
  \<^verbatim>\<open>0.5\<close>, \<^verbatim>\<open>True\<close> and \<^verbatim>\<open>'zero'\<close>.
\<close>

definition build_generator_model ::
  "framework \<Rightarrow> nat list \<Rightarrow> nat \<Rightarrow> nat \<Rightarrow> nat \<Rightarrow> string \<Rightarrow> string \<Rightarrow> bool \<Rightarrow> pyexc + pyobj" where
  "build_generator_model fw patch_size input_nc output_nc init_num_filters model_name norm_layer
     use_dropout =
     (if model_name = ''unet_128'' then
        build_unet fw patch_size input_nc output_nc init_num_filters norm_layer 7 use_dropout
          (1 / 2) True
      else if model_name = ''unet_256'' then
        build_unet fw patch_size input_nc output_nc init_num_filters norm_layer 8 use_dropout
          (1 / 2) True
      else if model_name = ''resnet_6blocks'' then
        build_resnet fw patch_size input_nc output_nc init_num_filters norm_layer ''zero'' 6
          use_dropout (1 / 2)
      else if model_name = ''resnet_9blocks'' then
        build_resnet fw patch_size input_nc output_nc init_num_filters norm_layer ''zero'' 9
          use_dropout (1 / 2)
      else Inl NotImplementedError)"

section \<open>The discriminators\<close>

definition build_pixel_gan ::
  "framework \<Rightarrow> nat list \<Rightarrow> nat \<Rightarrow> norm_value \<Rightarrow> int \<Rightarrow> bool \<Rightarrow> pyarg \<Rightarrow> pyexc + pyobj" where
  "build_pixel_gan fw input_shape init_num_filters norm_layer channel_axis ub final_activation =
     run_seq (
       and_then (seq_add fw (InputLayer input_shape None)) (\<lambda>_.
       and_then (seq_add fw (Conv2D ((conv_kwargs (PyInt (int init_num_filters)) (1, 1))
                   \<lparr>padding := Some ''same'', use_bias := Some ub\<rparr>))) (\<lambda>_.
       and_then (seq_add fw (LeakyReLU (2 / 10))) (\<lambda>_.
       and_then (seq_add fw (Conv2D ((conv_kwargs (PyInt (int init_num_filters * 2)) (1, 1))
                   \<lparr>padding := Some ''same'', use_bias := Some ub\<rparr>))) (\<lambda>_.
       and_then (norm_add fw norm_layer channel_axis) (\<lambda>_.
       and_then (seq_add fw (LeakyReLU (2 / 10))) (\<lambda>_.
       seq_add fw (Conv2D ((conv_kwargs (PyInt (int init_num_filters * 2)) (1, 1))
                   \<lparr>padding := Some ''same'', use_bias := Some ub,
                    activation := final_activation\<rparr>)))))))))"

text \<open>
  \<^verbatim>\<open>init_num_filters * min(2 ** n, 8)\<close>: an integer for \<^verbatim>\<open>n >= 0\<close>; for a negative
  \<^verbatim>\<open>n\<close> the power, the minimum and the product are floats.
\<close>

definition scaled_filters :: "nat \<Rightarrow> int \<Rightarrow> pynum" where
  "scaled_filters init_num_filters n =
     (if 0 \<le> n then PyInt (int init_num_filters * min (2 ^ nat n) 8) else PyFloat)"

text \<open>The loop \<^verbatim>\<open>for n in range(1, n_layers)\<close>.\<close>

fun nlayer_loop ::
  "framework \<Rightarrow> nat \<Rightarrow> nat \<times> nat \<Rightarrow> bool \<Rightarrow> norm_value \<Rightarrow> int \<Rightarrow> bool \<Rightarrow> rat \<Rightarrow> int list
   \<Rightarrow> (layer list, unit) build" where
  "nlayer_loop fw init_num_filters ks ub norm_layer channel_axis use_dropout dropout_rate [] =
     ret ()"
| "nlayer_loop fw init_num_filters ks ub norm_layer channel_axis use_dropout dropout_rate
     (n # rest) =
     and_then (seq_add fw (Conv2D ((conv_kwargs (scaled_filters init_num_filters n) ks)
                 \<lparr>strides := Some (2, 2), padding := Some ''same'', use_bias := Some ub\<rparr>))) (\<lambda>_.
     and_then (norm_add fw norm_layer channel_axis) (\<lambda>_.
     and_then (if use_dropout then seq_add fw (Dropout dropout_rate) else ret ()) (\<lambda>_.
     and_then (seq_add fw (LeakyReLU (2 / 10))) (\<lambda>_.
     nlayer_loop fw init_num_filters ks ub norm_layer channel_axis use_dropout dropout_rate
       rest))))"

text \<open>
  For \<^verbatim>\<open>n_layers == 0\<close> the pixel discriminator is built, with \<^verbatim>\<open>use_sigmoid\<close> (a
  boolean) as its \<^verbatim>\<open>final_activation\<close> argument. For \<^verbatim>\<open>n_layers == -1\<close> the variable is
  rebound to \<^verbatim>\<open>np.log2(patch_size[0])\<close>, a float, and \<^verbatim>\<open>range(1, n_layers)\<close> raises
  \<^verbatim>\<open>TypeError\<close> on a float bound.
\<close>

definition build_nlayer_discriminator ::
  "framework \<Rightarrow> nat list \<Rightarrow> nat \<Rightarrow> nat \<Rightarrow> int \<Rightarrow> string \<Rightarrow> bool \<Rightarrow> bool \<Rightarrow> rat \<Rightarrow> pyexc + pyobj" where
  "build_nlayer_discriminator fw patch_size input_nc init_num_filters n_layers norm_layer
     use_sigmoid use_dropout dropout_rate =
     (let kernel_size = (4, 4);
          input_shape = (if channels_first fw then input_nc # patch_size
                         else patch_size @ [input_nc]);
          channel_axis = (if channels_first fw then 1 else - 1);
          ub = (norm_layer = ''instance'')
      in case get_norm_layer fw norm_layer of
           Inl e \<Rightarrow> Inl e
         | Inr norm_layer' \<Rightarrow>
      (let final_activation = (if use_sigmoid then PyStr ''sigmoid'' else PyNone) in
       if n_layers = 0 then
         build_pixel_gan fw input_shape init_num_filters norm_layer' channel_axis ub
           (PyBool use_sigmoid)
       else
         case (if n_layers = - 1
               then (case patch_size of [] \<Rightarrow> Inl IndexError | p # _ \<Rightarrow> Inr PyFloat)
               else Inr (PyInt n_layers)) of
           Inl e \<Rightarrow> Inl e
         | Inr n_layers' \<Rightarrow>
         run_seq (
           and_then (seq_add fw (InputLayer input_shape None)) (\<lambda>_.
           and_then (seq_add fw (Conv2D ((conv_kwargs (PyInt (int init_num_filters)) kernel_size)
                       \<lparr>strides := Some (2, 2), padding := Some ''same'',
                        use_bias := Some ub\<rparr>))) (\<lambda>_.
           and_then (seq_add fw (LeakyReLU (2 / 10))) (\<lambda>_.
           case n_layers' of
             PyFloat \<Rightarrow> raise TypeError
           | PyInt n \<Rightarrow>
           and_then (nlayer_loop fw init_num_filters kernel_size ub norm_layer' channel_axis
                       use_dropout dropout_rate [1 .. n - 1]) (\<lambda>_.
           and_then (seq_add fw (Conv2D ((conv_kwargs (scaled_filters init_num_filters n)
                         kernel_size)
                       \<lparr>padding := Some ''same'', use_bias := Some ub\<rparr>))) (\<lambda>_.
           and_then (norm_add fw norm_layer' channel_axis) (\<lambda>_.
           and_then (seq_add fw (LeakyReLU (2 / 10))) (\<lambda>_.
           seq_add fw (Conv2D ((conv_kwargs (PyInt 1) kernel_size)
                       \<lparr>padding := Some ''same'', activation := final_activation\<rparr>))))))))))))"

text \<open>
  \<^verbatim>\<open>build_discriminator_model\<close> passes its six arguments on; \<^verbatim>\<open>use_dropout\<close> and
  \<^verbatim>\<open>dropout_rate\<close> keep their defaults \<^verbatim>\<open>False\<close> and \<^verbatim>\<open>0.5\<close>.
\<close>

definition build_discriminator_model ::
  "framework \<Rightarrow> nat list \<Rightarrow> nat \<Rightarrow> nat \<Rightarrow> int \<Rightarrow> string \<Rightarrow> bool \<Rightarrow> pyexc + pyobj" where
  "build_discriminator_model fw patch_size input_nc init_num_filters n_layers norm_layer
     use_sigmoid =
     build_nlayer_discriminator fw patch_size input_nc init_num_filters n_layers norm_layer
       use_sigmoid False (1 / 2)"

text \<open>
  A framework with the argument checks of Keras that the calls of this module run into: the
  padding of \<^verbatim>\<open>ZeroPadding2D\<close> is a tuple of two entries; a convolution has a positive
  integer number of filters, and its activation is \<^verbatim>\<open>None\<close> or the name of an activation
  function (a boolean is refused); an \<^verbatim>\<open>Activation\<close> layer is given such a name. The
  shapes of tensors are not tracked: calls on tensors, \<^verbatim>\<open>Model\<close> and
  \<^verbatim>\<open>Sequential.add\<close> are accepted. The backend's data format is \<^verbatim>\<open>channels_last\<close>.
\<close>

definition activation_names :: "string list" where
  "activation_names = [''relu'', ''tanh'', ''sigmoid'', ''linear'', ''softmax'']"

definition valid_activation :: "pyarg \<Rightarrow> bool" where
  "valid_activation a =
     (case a of PyNone \<Rightarrow> True | PyStr s \<Rightarrow> List.member activation_names s | PyBool b \<Rightarrow> False)"

definition valid_conv :: "conv_args \<Rightarrow> bool" where
  "valid_conv a =
     ((case filters a of PyInt k \<Rightarrow> 0 < k | PyFloat \<Rightarrow> False) \<and> valid_activation (activation a))"

definition valid_layer :: "layer \<Rightarrow> bool" where
  "valid_layer l =
     (case l of
        Conv2D a \<Rightarrow> valid_conv a
      | Conv2DTranspose a \<Rightarrow> valid_conv a
      | ZeroPadding2D p \<Rightarrow> length p = 2
      | Activation f \<Rightarrow> List.member activation_names f
      | _ \<Rightarrow> True)"

definition keras_accepts :: "fw_call \<Rightarrow> bool" where
  "keras_accepts c = (case c of New l \<Rightarrow> valid_layer l | _ \<Rightarrow> True)"

definition keras_framework :: "bool \<Rightarrow> framework" where
  "keras_framework contrib =
     \<lparr>channels_first = False, contrib_installed = contrib, accepts = keras_accepts\<rparr>"

section \<open>Layer traces\<close>

text \<open>
  Vocabulary for stating properties of the built models. The layers of a model are the
  layers of its nodes in creation order. A construction \<open>emits\<close> a list of layers when
  every run that returns has appended exactly these layers to the graph (or to the
  \<^verbatim>\<open>Sequential\<close> model) it started from.
\<close>

text \<open>
  What \<^verbatim>\<open>norm_layer(axis=channel_axis)(x)\<close> adds: one normalization layer when
  \<^verbatim>\<open>norm_layer\<close> is a layer class, nothing when the call raises.
\<close>

definition norm_trace :: "norm_value \<Rightarrow> int \<Rightarrow> layer list" where
  "norm_trace norm_layer axis =
     (case norm_new norm_layer axis of Inl e \<Rightarrow> [] | Inr l \<Rightarrow> [l])"

definition emits :: "('s \<Rightarrow> layer list) \<Rightarrow> ('s, 'a) build \<Rightarrow> layer list \<Rightarrow> bool" where
  "emits tr m xs = (\<forall>s r s'. m s = Inr (r, s') \<longrightarrow> tr s' = tr s @ xs)"

definition graph_layers :: "graph \<Rightarrow> layer list" where
  "graph_layers g = map node_layer g"

definition seq_layers :: "layer list \<Rightarrow> layer list" where
  "seq_layers ls = ls"

definition returns_graph :: "(graph, pyobj) build \<Rightarrow> bool" where
  "returns_graph m = (\<forall>s r s'. m s = Inr (r, s') \<longrightarrow> (\<exists>a b. r = ModelObj (Functional a b s')))"

fun model_layers :: "model \<Rightarrow> layer list" where
  "model_layers (Functional a b g) = graph_layers g"
| "model_layers (Sequential ls) = ls"

text \<open>The \<^verbatim>\<open>filters\<close> arguments of the \<^verbatim>\<open>Conv2D\<close> layers, in order.\<close>

definition layer_filters :: "layer \<Rightarrow> pynum list" where
  "layer_filters l = (case l of Conv2D a \<Rightarrow> [filters a] | _ \<Rightarrow> [])"

definition conv_filters :: "layer list \<Rightarrow> pynum list" where
  "conv_filters ls = concat (map layer_filters ls)"

text \<open>
  A downsampling stage is a \<^verbatim>\<open>Conv2D\<close> with \<^verbatim>\<open>strides=(2, 2)\<close>, an upsampling stage a
  \<^verbatim>\<open>Conv2DTranspose\<close> with \<^verbatim>\<open>strides=(2, 2)\<close>. A convolution has a bias when
  \<^verbatim>\<open>use_bias=True\<close> is passed or the argument is left out (the framework's default is
  \<^verbatim>\<open>use_bias=True\<close>).
\<close>

definition is_downsampling :: "layer \<Rightarrow> bool" where
  "is_downsampling l = (case l of Conv2D a \<Rightarrow> strides a = Some (2, 2) | _ \<Rightarrow> False)"

definition is_upsampling :: "layer \<Rightarrow> bool" where
  "is_upsampling l = (case l of Conv2DTranspose a \<Rightarrow> strides a = Some (2, 2) | _ \<Rightarrow> False)"

definition is_concatenate :: "layer \<Rightarrow> bool" where
  "is_concatenate l = (case l of Concatenate axis \<Rightarrow> True | _ \<Rightarrow> False)"

definition bias_enabled :: "layer \<Rightarrow> bool" where
  "bias_enabled l =
     (case l of
        Conv2D a \<Rightarrow> (case use_bias a of None \<Rightarrow> True | Some b \<Rightarrow> b)
      | Conv2DTranspose a \<Rightarrow> (case use_bias a of None \<Rightarrow> True | Some b \<Rightarrow> b)
      | _ \<Rightarrow> False)"

definition count_layers :: "(layer \<Rightarrow> bool) \<Rightarrow> layer list \<Rightarrow> nat" where
  "count_layers P ls = length (filter P ls)"

text \<open>The layers of the model a call returned, if it returned a model.\<close>

definition result_layers :: "pyexc + pyobj \<Rightarrow> layer list option" where
  "result_layers r = (case r of Inr (ModelObj m) \<Rightarrow> Some (model_layers m) | _ \<Rightarrow> None)"

section \<open>Basic facts about construction\<close>

lemma emits_and_then:
  "emits tr m xs \<Longrightarrow> (\<And>x. emits tr (f x) ys) \<Longrightarrow> emits tr (and_then m f) (xs @ ys)"
  unfolding emits_def and_then_def
  by (auto split: sum.splits)

lemma emits_ret: "emits tr (ret x) []"
  by (simp add: emits_def ret_def)

lemma emits_raise: "emits tr (raise e) []"
  by (simp add: emits_def raise_def)

lemma emits_if:
  "emits tr m xs \<Longrightarrow> emits tr m' ys \<Longrightarrow>
   emits tr (if c then m else m') (if c then xs else ys)"
  by simp

lemma emits_case_prod:
  "(\<And>a b. emits tr (f a b) xs) \<Longrightarrow> emits tr (case_prod f p) xs"
  by (cases p) simp

lemma emits_weaken: "emits tr m xs \<Longrightarrow> xs = ys \<Longrightarrow> emits tr m ys"
  by simp

lemma emits_py_index: "emits tr (py_index xs i) []"
  by (simp add: emits_def py_index_def ret_def raise_def)

lemma emits_call: "emits graph_layers (call fw l args) [l]"
  by (auto simp: emits_def call_def graph_layers_def split: if_splits option.splits)

lemma emits_new: "emits graph_layers (new fw l) []"
  by (auto simp: emits_def new_def split: if_splits)

lemma emits_norm_call: "emits graph_layers (norm_call fw nl ax x) (norm_trace nl ax)"
  by (cases "norm_new nl ax") (simp_all add: norm_call_def norm_trace_def emits_raise emits_call)

lemma emits_Model: "emits graph_layers (Model fw i out) []"
  by (auto simp: emits_def Model_def split: if_splits pyval.splits)

lemma emits_seq_add: "emits seq_layers (seq_add fw l) [l]"
  by (auto simp: emits_def seq_add_def seq_layers_def split: if_splits)

lemma emits_norm_add: "emits seq_layers (norm_add fw nl ax) (norm_trace nl ax)"
  by (cases "norm_new nl ax") (simp_all add: norm_add_def norm_trace_def emits_raise emits_seq_add)

lemmas emits_intros =
  emits_and_then emits_ret emits_raise emits_if emits_case_prod emits_py_index emits_call
  emits_new emits_norm_call emits_Model emits_seq_add emits_norm_add

lemma returns_graph_and_then:
  "(\<And>x. returns_graph (f x)) \<Longrightarrow> returns_graph (and_then m f)"
  unfolding returns_graph_def and_then_def
  by (auto split: sum.splits)

lemma returns_graph_case_prod:
  "(\<And>a b. returns_graph (f a b)) \<Longrightarrow> returns_graph (case_prod f p)"
  by (cases p) simp

lemma returns_graph_Model: "returns_graph (Model fw i out)"
  by (auto simp: returns_graph_def Model_def split: if_splits pyval.splits)

lemmas returns_graph_intros =
  returns_graph_and_then returns_graph_case_prod returns_graph_Model

lemma run_layers:
  assumes "emits graph_layers m xs" and "returns_graph m" and "run m = Inr obj"
  shows "\<exists>mo. obj = ModelObj mo \<and> model_layers mo = xs"
proof -
  from assms(3) obtain g where g: "m [] = Inr (obj, g)"
    by (auto simp: run_def split: sum.splits)
  from assms(2) g obtain a b where obj: "obj = ModelObj (Functional a b g)"
    unfolding returns_graph_def by blast
  from assms(1) g have "graph_layers g = graph_layers [] @ xs"
    unfolding emits_def by blast
  with obj show ?thesis by (simp add: graph_layers_def)
qed

lemma run_seq_layers:
  assumes "emits seq_layers m xs" and "run_seq m = Inr obj"
  shows "obj = ModelObj (Sequential xs)"
  using assms
  by (auto simp: emits_def run_seq_def seq_layers_def split: sum.splits)

lemma nlayer_loop_emits:
  "emits seq_layers (nlayer_loop fw nf ks ub nl ax ud dr ns)
     (concat (map (\<lambda>n.
        [Conv2D ((conv_kwargs (scaled_filters nf n) ks)
           \<lparr>strides := Some (2, 2), padding := Some ''same'', use_bias := Some ub\<rparr>)]
        @ norm_trace nl ax @ (if ud then [Dropout dr] else []) @ [LeakyReLU (2 / 10)]) ns))"
proof (induction ns)
  case Nil
  show ?case by (simp add: emits_ret)
next
  case (Cons n ns)
  show ?case
    unfolding nlayer_loop.simps
    by (rule emits_weaken, (rule emits_intros Cons.IH)+) simp
qed

lemma build_pixel_gan_layers:
  assumes "build_pixel_gan fw input_shape nf nl ax ub final_activation = Inr obj"
  shows "obj = ModelObj (Sequential (
     [InputLayer input_shape None,
      Conv2D ((conv_kwargs (PyInt (int nf)) (1, 1))
        \<lparr>padding := Some ''same'', use_bias := Some ub\<rparr>),
      LeakyReLU (2 / 10),
      Conv2D ((conv_kwargs (PyInt (int nf * 2)) (1, 1))
        \<lparr>padding := Some ''same'', use_bias := Some ub\<rparr>)]
     @ norm_trace nl ax @
     [LeakyReLU (2 / 10),
      Conv2D ((conv_kwargs (PyInt (int nf * 2)) (1, 1))
        \<lparr>padding := Some ''same'', use_bias := Some ub,
         activation := final_activation\<rparr>)]))"
  by (rule run_seq_layers[OF _ assms[unfolded build_pixel_gan_def]],
      rule emits_weaken, (rule emits_intros)+) simp

lemma build_nlayer_discriminator_layers:
  assumes n0: "n_layers \<noteq> 0" and n1: "n_layers \<noteq> - 1"
    and b: "build_nlayer_discriminator fw patch_size input_nc nf n_layers norm_layer
              use_sigmoid use_dropout dropout_rate = Inr obj"
  shows "\<exists>nl. get_norm_layer fw norm_layer = Inr nl \<and>
     obj = ModelObj (Sequential (
       [InputLayer (if channels_first fw then input_nc # patch_size else patch_size @ [input_nc])
          None,
        Conv2D ((conv_kwargs (PyInt (int nf)) (4, 4))
          \<lparr>strides := Some (2, 2), padding := Some ''same'',
           use_bias := Some (norm_layer = ''instance'')\<rparr>),
        LeakyReLU (2 / 10)]
       @ concat (map (\<lambda>n.
           [Conv2D ((conv_kwargs (scaled_filters nf n) (4, 4))
              \<lparr>strides := Some (2, 2), padding := Some ''same'',
               use_bias := Some (norm_layer = ''instance'')\<rparr>)]
           @ norm_trace nl (if channels_first fw then 1 else - 1)
           @ (if use_dropout then [Dropout dropout_rate] else [])
           @ [LeakyReLU (2 / 10)]) [1 .. n_layers - 1])
       @ [Conv2D ((conv_kwargs (scaled_filters nf n_layers) (4, 4))
            \<lparr>padding := Some ''same'', use_bias := Some (norm_layer = ''instance'')\<rparr>)]
       @ norm_trace nl (if channels_first fw then 1 else - 1)
       @ [LeakyReLU (2 / 10),
          Conv2D ((conv_kwargs (PyInt 1) (4, 4))
            \<lparr>padding := Some ''same'',
             activation := (if use_sigmoid then PyStr ''sigmoid'' else PyNone)\<rparr>)]))"
proof (cases "get_norm_layer fw norm_layer")
  case (Inl e)
  with b show ?thesis by (simp add: build_nlayer_discriminator_def Let_def)
next
  case (Inr nl)
  from b have r: "run_seq (
      and_then (seq_add fw (InputLayer
          (if channels_first fw then input_nc # patch_size else patch_size @ [input_nc]) None))
        (\<lambda>_.
      and_then (seq_add fw (Conv2D ((conv_kwargs (PyInt (int nf)) (4, 4))
          \<lparr>strides := Some (2, 2), padding := Some ''same'',
           use_bias := Some (norm_layer = ''instance'')\<rparr>))) (\<lambda>_.
      and_then (seq_add fw (LeakyReLU (2 / 10))) (\<lambda>_.
      and_then (nlayer_loop fw nf (4, 4) (norm_layer = ''instance'') nl
          (if channels_first fw then 1 else - 1) use_dropout dropout_rate [1 .. n_layers - 1])
        (\<lambda>_.
      and_then (seq_add fw (Conv2D ((conv_kwargs (scaled_filters nf n_layers) (4, 4))
          \<lparr>padding := Some ''same'', use_bias := Some (norm_layer = ''instance'')\<rparr>))) (\<lambda>_.
      and_then (norm_add fw nl (if channels_first fw then 1 else - 1)) (\<lambda>_.
      and_then (seq_add fw (LeakyReLU (2 / 10))) (\<lambda>_.
      seq_add fw (Conv2D ((conv_kwargs (PyInt 1) (4, 4))
          \<lparr>padding := Some ''same'',
           activation := (if use_sigmoid then PyStr ''sigmoid'' else PyNone)\<rparr>))))))))))
      = Inr obj"
    unfolding build_nlayer_discriminator_def Let_def Inr sum.case
    using n0 n1 by simp
  have "obj = ModelObj (Sequential (
       [InputLayer (if channels_first fw then input_nc # patch_size else patch_size @ [input_nc])
          None,
        Conv2D ((conv_kwargs (PyInt (int nf)) (4, 4))
          \<lparr>strides := Some (2, 2), padding := Some ''same'',
           use_bias := Some (norm_layer = ''instance'')\<rparr>),
        LeakyReLU (2 / 10)]
       @ concat (map (\<lambda>n.
           [Conv2D ((conv_kwargs (scaled_filters nf n) (4, 4))
              \<lparr>strides := Some (2, 2), padding := Some ''same'',
               use_bias := Some (norm_layer = ''instance'')\<rparr>)]
           @ norm_trace nl (if channels_first fw then 1 else - 1)
           @ (if use_dropout then [Dropout dropout_rate] else [])
           @ [LeakyReLU (2 / 10)]) [1 .. n_layers - 1])
       @ [Conv2D ((conv_kwargs (scaled_filters nf n_layers) (4, 4))
            \<lparr>padding := Some ''same'', use_bias := Some (norm_layer = ''instance'')\<rparr>)]
       @ norm_trace nl (if channels_first fw then 1 else - 1)
       @ [LeakyReLU (2 / 10),
          Conv2D ((conv_kwargs (PyInt 1) (4, 4))
            \<lparr>padding := Some ''same'',
             activation := (if use_sigmoid then PyStr ''sigmoid'' else PyNone)\<rparr>)]))"
    by (rule run_seq_layers[OF _ r], rule emits_weaken,
        (rule emits_intros nlayer_loop_emits)+) simp
  with Inr show ?thesis by blast
qed


lemma conv_filters_append: "conv_filters (xs @ ys) = conv_filters xs @ conv_filters ys"
  by (simp add: conv_filters_def)

lemma conv_filters_Nil: "conv_filters [] = []"
  by (simp add: conv_filters_def)

lemma conv_filters_Cons:
  "conv_filters (Conv2D a # ls) = filters a # conv_filters ls"
  "conv_filters (InputLayer sh nm # ls) = conv_filters ls"
  "conv_filters (Conv2DTranspose a # ls) = conv_filters ls"
  "conv_filters (Normalization c ax # ls) = conv_filters ls"
  "conv_filters (LeakyReLU r # ls) = conv_filters ls"
  "conv_filters (Dropout r # ls) = conv_filters ls"
  "conv_filters (ZeroPadding2D p # ls) = conv_filters ls"
  "conv_filters (Activation f # ls) = conv_filters ls"
  "conv_filters (Concatenate ax # ls) = conv_filters ls"
  "conv_filters (Add # ls) = conv_filters ls"
  by (simp_all add: conv_filters_def layer_filters_def)

lemma conv_filters_norm_trace: "conv_filters (norm_trace nl ax) = []"
  by (cases nl) (simp_all add: norm_trace_def norm_new_def conv_filters_Cons conv_filters_Nil)

lemmas conv_filters_simps =
  conv_filters_append conv_filters_Nil conv_filters_Cons conv_filters_norm_trace

lemma upto_as_upt: "0 \<le> i \<Longrightarrow> [i .. j] = map int [nat i ..< nat (j + 1)]"
  by (rule nth_equalityI) auto

lemma upt_0_Suc_split: "0 < n \<Longrightarrow> [0 ..< Suc n] = 0 # [1 ..< n] @ [n]"
  using upt_conv_Cons[of 0 n] by simp

lemma conv_filters_concat_map:
  "conv_filters (concat (map f ns)) = concat (map (\<lambda>n. conv_filters (f n)) ns)"
  by (induction ns) (simp_all add: conv_filters_append conv_filters_Nil)

lemma unet_down_emits:
  "emits graph_layers (unet_down fw nf ks ub nl ax idx prev nodes)
     (concat (map (\<lambda>i.
        [LeakyReLU (2 / 10),
         Conv2D ((conv_kwargs (PyInt (int nf * max (2 ^ nat i) 8)) ks)
           \<lparr>strides := Some (2, 2), padding := Some ''same'', use_bias := Some ub\<rparr>)]
        @ norm_trace nl ax) idx))"
proof (induction idx arbitrary: prev nodes)
  case Nil
  show ?case by (simp add: emits_ret)
next
  case (Cons i idx)
  show ?case
    unfolding unet_down.simps
    by (rule emits_weaken, (rule emits_intros Cons.IH)+) simp
qed

lemma unet_up_emits:
  "emits graph_layers (unet_up fw nf ks ub nl ax ud dr ae nodes idx deconv)
     (concat (map (\<lambda>i.
        norm_trace nl ax @ (if ud then [Dropout dr] else [])
        @ [Activation ''relu'',
           Conv2DTranspose ((conv_kwargs (PyInt (int nf * max (2 ^ nat i) 8)) ks)
             \<lparr>strides := Some (2, 2), padding := Some ''same'', use_bias := Some ub\<rparr>)]) idx))"
proof (induction idx arbitrary: deconv)
  case Nil
  show ?case by (simp add: emits_ret)
next
  case (Cons i idx)
  show ?case
    unfolding unet_up.simps
    by (rule emits_weaken, (rule emits_intros Cons.IH)+) simp
qed


lemma build_unet_layers:
  assumes b: "build_unet fw patch_size input_nc output_nc nf norm_layer n_levels use_dropout
                dropout_rate autoencoder = Inr obj"
  shows "\<exists>nl mo. get_norm_layer fw norm_layer = Inr nl \<and> obj = ModelObj mo \<and>
     model_layers mo =
       [InputLayer (if channels_first fw then input_nc # patch_size else patch_size @ [input_nc])
          (Some ''input1''),
        Conv2D ((conv_kwargs (PyInt (int nf)) (4, 4))
          \<lparr>strides := Some (2, 2), padding := Some ''same'',
           use_bias := Some (norm_layer = ''instance'')\<rparr>)]
       @ concat (map (\<lambda>i.
           [LeakyReLU (2 / 10),
            Conv2D ((conv_kwargs (PyInt (int nf * max (2 ^ nat i) 8)) (4, 4))
              \<lparr>strides := Some (2, 2), padding := Some ''same'',
               use_bias := Some (norm_layer = ''instance'')\<rparr>)]
           @ norm_trace nl (if channels_first fw then 1 else - 1)) [1 .. n_levels - 2])
       @ [LeakyReLU (2 / 10),
          Conv2D ((conv_kwargs (PyInt (int nf * max (2 ^ nat n_levels - 1) 8)) (4, 4))
            \<lparr>strides := Some (2, 2), padding := Some ''same'',
             use_bias := Some (norm_layer = ''instance'')\<rparr>),
          Activation ''relu'',
          Conv2DTranspose ((conv_kwargs (PyInt (int nf * max (2 ^ nat n_levels - 2) 8)) (4, 4))
            \<lparr>strides := Some (2, 2), padding := Some ''same'',
             use_bias := Some (norm_layer = ''instance'')\<rparr>)]
       @ concat (map (\<lambda>i.
           norm_trace nl (if channels_first fw then 1 else - 1)
           @ (if use_dropout then [Dropout dropout_rate] else [])
           @ [Activation ''relu'',
              Conv2DTranspose ((conv_kwargs (PyInt (int nf * max (2 ^ nat i) 8)) (4, 4))
                \<lparr>strides := Some (2, 2), padding := Some ''same'',
                 use_bias := Some (norm_layer = ''instance'')\<rparr>)]) (rev [1 .. n_levels - 2]))
       @ norm_trace nl (if channels_first fw then 1 else - 1)
       @ (if \<not> autoencoder then [Concatenate (if channels_first fw then 1 else - 1)] else [])
       @ [Activation ''relu'',
          Conv2D ((conv_kwargs (PyInt (int output_nc)) (4, 4))
            \<lparr>strides := Some (2, 2), padding := Some ''same'',
             use_bias := Some (norm_layer = ''instance'')\<rparr>),
          Activation ''tanh'']"
    (is "\<exists>nl mo. _ \<and> _ \<and> model_layers mo = ?T nl")
proof (cases "get_norm_layer fw norm_layer")
  case (Inl e)
  with b show ?thesis by (simp add: build_unet_def Let_def)
next
  case (Inr nl)
  note r = b[unfolded build_unet_def Let_def Inr sum.case]
  have "\<exists>mo. obj = ModelObj mo \<and> model_layers mo = ?T nl"
    apply (rule run_layers[OF _ _ r])
     apply (rule emits_weaken)
      apply (rule emits_intros unet_down_emits unet_up_emits)+
     apply simp
    apply (rule returns_graph_intros)+
    done
  with Inr show ?thesis by blast
qed


lemma resnet_down_emits:
  "emits graph_layers (resnet_down fw nf ks nl ax idx act)
     (concat (map (\<lambda>i.
        [Conv2D ((conv_kwargs (PyInt (int nf * 2 ^ nat (i + 1))) ks)
           \<lparr>strides := Some (2, 2), padding := Some ''same''\<rparr>)]
        @ norm_trace nl ax @ [Activation ''relu'']) idx))"
proof (induction idx arbitrary: act)
  case Nil
  show ?case by (simp add: emits_ret)
next
  case (Cons i idx)
  show ?case
    unfolding resnet_down.simps
    by (rule emits_weaken, (rule emits_intros Cons.IH)+) simp
qed

lemma resnet_up_emits:
  "emits graph_layers (resnet_up fw nf ks nl ax idx act)
     (concat (map (\<lambda>i.
        [Conv2DTranspose ((conv_kwargs (PyInt (int nf * 2 ^ nat (i + 1))) ks)
           \<lparr>strides := Some (2, 2), padding := Some ''same''\<rparr>)]
        @ norm_trace nl ax @ [Activation ''relu'']) idx))"
proof (induction idx arbitrary: act)
  case Nil
  show ?case by (simp add: emits_ret)
next
  case (Cons i idx)
  show ?case
    unfolding resnet_up.simps
    by (rule emits_weaken, (rule emits_intros Cons.IH)+) simp
qed

lemma build_conv_block_emits:
  "emits graph_layers (build_conv_block fw previous num_filters ks nl ax padding_layer ud dr ub)
     ([padding_layer [1, 1, 1, 1],
       Conv2D ((conv_kwargs (PyInt (int num_filters)) ks)\<lparr>use_bias := Some ub\<rparr>)]
      @ norm_trace nl ax
      @ [Activation ''relu'', padding_layer [1, 1, 1, 1],
         Conv2D ((conv_kwargs (PyInt (int num_filters)) ks)\<lparr>use_bias := Some ub\<rparr>)]
      @ norm_trace nl ax @ [Add])"
  unfolding build_conv_block_def
  by (rule emits_weaken, (rule emits_intros)+) simp

lemma resnet_blocks_emits:
  "emits graph_layers (resnet_blocks fw num_filters ks nl ax padding_layer ud dr ub idx act)
     (concat (map (\<lambda>i.
        [padding_layer [1, 1, 1, 1],
         Conv2D ((conv_kwargs (PyInt (int num_filters)) ks)\<lparr>use_bias := Some ub\<rparr>)]
        @ norm_trace nl ax
        @ [Activation ''relu'', padding_layer [1, 1, 1, 1],
           Conv2D ((conv_kwargs (PyInt (int num_filters)) ks)\<lparr>use_bias := Some ub\<rparr>)]
        @ norm_trace nl ax @ [Add]) idx))"
proof (induction idx arbitrary: act)
  case Nil
  show ?case by (simp add: emits_ret)
next
  case (Cons i idx)
  show ?case
    unfolding resnet_blocks.simps
    by (rule emits_weaken, (rule emits_intros build_conv_block_emits Cons.IH)+) simp
qed

lemma build_resnet_layers:
  assumes b: "build_resnet fw patch_size input_nc output_nc nf norm_layer ''zero'' n_blocks
                use_dropout dropout_rate = Inr obj"
  shows "\<exists>nl mo. get_norm_layer fw norm_layer = Inr nl \<and> obj = ModelObj mo \<and>
     model_layers mo =
       [InputLayer (if channels_first fw then input_nc # patch_size else patch_size @ [input_nc])
          (Some ''input1''),
        ZeroPadding2D [3, 3, 3, 3],
        Conv2D ((conv_kwargs (PyInt (int nf)) (7, 7))
          \<lparr>use_bias := Some (norm_layer = ''instance'')\<rparr>)]
       @ norm_trace nl (if channels_first fw then 1 else - 1)
       @ [Activation ''relu'']
       @ concat (map (\<lambda>i.
           [Conv2D ((conv_kwargs (PyInt (int nf * 2 ^ nat (i + 1))) (3, 3))
              \<lparr>strides := Some (2, 2), padding := Some ''same''\<rparr>)]
           @ norm_trace nl (if channels_first fw then 1 else - 1)
           @ [Activation ''relu'']) [0 .. 1])
       @ concat (map (\<lambda>i.
           [ZeroPadding2D [1, 1, 1, 1],
            Conv2D ((conv_kwargs (PyInt (int (nf * 4))) (3, 3))
              \<lparr>use_bias := Some (norm_layer = ''instance'')\<rparr>)]
           @ norm_trace nl (if channels_first fw then 1 else - 1)
           @ [Activation ''relu'', ZeroPadding2D [1, 1, 1, 1],
              Conv2D ((conv_kwargs (PyInt (int (nf * 4))) (3, 3))
                \<lparr>use_bias := Some (norm_layer = ''instance'')\<rparr>)]
           @ norm_trace nl (if channels_first fw then 1 else - 1) @ [Add]) [0 .. n_blocks - 1])
       @ concat (map (\<lambda>i.
           [Conv2DTranspose ((conv_kwargs (PyInt (int nf * 2 ^ nat (i + 1))) (3, 3))
              \<lparr>strides := Some (2, 2), padding := Some ''same''\<rparr>)]
           @ norm_trace nl (if channels_first fw then 1 else - 1)
           @ [Activation ''relu'']) (rev [0 .. n_blocks - 1]))
       @ [ZeroPadding2D [3, 3, 3, 3],
          Conv2D ((conv_kwargs (PyInt (int output_nc)) (7, 7))
            \<lparr>use_bias := Some (norm_layer = ''instance'')\<rparr>),
          Activation ''tanh'']"
    (is "\<exists>nl mo. _ \<and> _ \<and> model_layers mo = ?T nl")
proof (cases "get_norm_layer fw norm_layer")
  case (Inl e)
  with b show ?thesis by (simp add: build_resnet_def Let_def)
next
  case (Inr nl)
  note r = b[unfolded build_resnet_def Let_def Inr sum.case, simplified]
  have "\<exists>mo. obj = ModelObj mo \<and> model_layers mo = ?T nl"
    apply (rule run_layers[OF _ _ r])
     apply (rule emits_weaken)
      apply (rule emits_intros resnet_down_emits resnet_blocks_emits resnet_up_emits)+
     apply simp
    apply (rule returns_graph_intros)+
    done
  with Inr show ?thesis by blast
qed

lemma count_layers_Nil: "count_layers P [] = 0"
  by (simp add: count_layers_def)

lemma count_layers_Cons: "count_layers P (l # ls) = (if P l then 1 else 0) + count_layers P ls"
  by (simp add: count_layers_def)

lemma count_layers_append: "count_layers P (xs @ ys) = count_layers P xs + count_layers P ys"
  by (simp add: count_layers_def)

lemma count_layers_concat_map:
  "count_layers P (concat (map f idx)) = sum_list (map (\<lambda>i. count_layers P (f i)) idx)"
  by (induction idx) (simp_all add: count_layers_Nil count_layers_append)

lemma count_layers_norm_trace:
  "(\<And>c. \<not> P (Normalization c ax)) \<Longrightarrow> count_layers P (norm_trace nl ax) = 0"
  by (cases nl) (simp_all add: norm_trace_def norm_new_def count_layers_def)

lemmas count_layers_simps =
  count_layers_Nil count_layers_Cons count_layers_append count_layers_concat_map
  count_layers_norm_trace

lemma and_then_failsI:
  "(\<And>x s'. m s = Inr (x, s') \<Longrightarrow> isl (f x s')) \<Longrightarrow> isl (and_then m f s)"
  by (auto simp: and_then_def split: sum.splits)

lemma and_then_fails_first: "isl (m s) \<Longrightarrow> isl (and_then m f s)"
  by (auto simp: and_then_def split: sum.splits)

lemma isl_raise: "isl (raise e s)"
  by (simp add: raise_def)

lemma isl_run: "isl (m []) \<Longrightarrow> isl (run m)"
  by (auto simp: run_def split: sum.splits)

lemma isl_run_seq: "isl (m []) \<Longrightarrow> isl (run_seq m)"
  by (auto simp: run_seq_def split: sum.splits)

lemma new_result: "new fw l g = Inr (x, g') \<Longrightarrow> x = LayerObj l"
  by (auto simp: new_def split: if_splits)

lemma call_layer_object_fails: "call fw l [LayerObj d] g \<noteq> Inr r"
  by (simp add: call_def)

lemma build_conv_block_dropout_fails:
  "isl (build_conv_block fw previous num_filters ks nl ax padding_layer True dr ub g)"
  unfolding build_conv_block_def if_True
  apply (rule and_then_failsI)+
  apply (drule new_result)
  apply (simp add: call_layer_object_fails)
  done

lemma resnet_blocks_dropout_fails:
  "idx \<noteq> [] \<Longrightarrow>
   isl (resnet_blocks fw num_filters ks nl ax padding_layer True dr ub idx act g)"
  by (cases idx) (simp_all add: and_then_fails_first build_conv_block_dropout_fails)

lemma build_resnet_dropout_fails:
  assumes "0 < n_blocks"
  shows "isl (build_resnet fw patch_size input_nc output_nc nf norm_layer ''zero'' n_blocks True dr)"
proof (cases "get_norm_layer fw norm_layer")
  case (Inl e)
  then show ?thesis by (simp add: build_resnet_def Let_def)
next
  case (Inr nl)
  from assms have ne: "[0 .. n_blocks - 1] \<noteq> []" by simp
  show ?thesis
    unfolding build_resnet_def Let_def Inr sum.case
    apply (simp only: refl if_False not_True_eq_False)
    apply (rule isl_run)
    apply (rule and_then_failsI)
    apply (rule and_then_failsI)
    apply (rule and_then_failsI)
    apply (rule and_then_failsI)
    apply (rule and_then_failsI)
    apply (rule and_then_failsI)
    apply (rule and_then_fails_first)
    apply (rule resnet_blocks_dropout_fails[OF ne])
    done
qed


lemma range_float_after_three_adds:
  "isl (run_seq (and_then (seq_add fw a) (\<lambda>_. and_then (seq_add fw b) (\<lambda>_.
          and_then (seq_add fw c) (\<lambda>_. raise TypeError)))))"
  by (rule isl_run_seq, (rule and_then_failsI)+, rule isl_raise)

lemma call_refused: "\<not> accepts fw (New l) \<Longrightarrow> isl (call fw l args g)"
  by (simp add: call_def)

lemma build_resnet_padding_refused:
  assumes "\<not> accepts fw (New (ZeroPadding2D [3, 3, 3, 3]))"
  shows "isl (build_resnet fw patch_size input_nc output_nc nf norm_layer ''zero'' n_blocks
                use_dropout dropout_rate)"
proof (cases "get_norm_layer fw norm_layer")
  case (Inl e)
  then show ?thesis by (simp add: build_resnet_def Let_def)
next
  case (Inr nl)
  have pad: "[(fst ((7, 7) :: nat \<times> nat) - 1 + 1) div 2, (fst ((7, 7) :: nat \<times> nat) - 1) div 2,
              (snd ((7, 7) :: nat \<times> nat) - 1 + 1) div 2, (snd ((7, 7) :: nat \<times> nat) - 1) div 2]
             = [3, 3, 3, 3 :: nat]"
    by simp
  show ?thesis
    unfolding build_resnet_def Let_def Inr sum.case pad
    apply (simp only: refl if_False not_True_eq_False)
    apply (rule isl_run)
    apply (rule and_then_failsI)
    apply (rule and_then_fails_first)
    apply (rule call_refused[OF assms])
    done
qed

lemma seq_add_refused: "\<not> accepts fw (New l) \<Longrightarrow> isl (seq_add fw l ls)"
  by (simp add: seq_add_def)

lemma build_pixel_gan_refused:
  assumes "\<not> accepts fw (New (Conv2D ((conv_kwargs (PyInt (int nf * 2)) (1, 1))
              \<lparr>padding := Some ''same'', use_bias := Some ub, activation := fa\<rparr>)))"
  shows "isl (build_pixel_gan fw input_shape nf nl ax ub fa)"
  unfolding build_pixel_gan_def
  apply (rule isl_run_seq)
  apply (rule and_then_failsI)+
  apply (rule seq_add_refused[OF assms])
  done

section \<open>Properties of the builders\<close>

subsection \<open>The U-Net generator\<close>

text \<open>
  C1. For the model names \<^verbatim>\<open>'unet_128'\<close> and \<^verbatim>\<open>'unet_256'\<close>,
  \<^verbatim>\<open>build_generator_model\<close> calls \<^verbatim>\<open>build_unet\<close> without the \<^verbatim>\<open>autoencoder\<close>
  argument, which keeps its default \<^verbatim>\<open>True\<close>, so the concatenations guarded by
  \<^verbatim>\<open>if not autoencoder\<close> are skipped: every generator that is returned has six (seven)
  transposed convolutions and no concatenation layer. No decoder feature map is
  concatenated with an encoder feature map.
\<close>

theorem unet_generator_no_concatenation:
  assumes "model_name = ''unet_128'' \<or> model_name = ''unet_256''"
    and "build_generator_model fw patch_size input_nc output_nc init_num_filters model_name
           norm_layer use_dropout = Inr obj"
  shows "\<exists>m. obj = ModelObj m \<and>
           count_layers is_concatenate (model_layers m) = 0 \<and>
           count_layers is_upsampling (model_layers m)
             = (if model_name = ''unet_128'' then 6 else 7)"
proof -
  from assms obtain n_levels where n: "n_levels = 7 \<or> n_levels = 8"
    and nm: "n_levels = (if model_name = ''unet_128'' then 7 else 8)"
    and b: "build_unet fw patch_size input_nc output_nc init_num_filters norm_layer n_levels
              use_dropout (1 / 2) True = Inr obj"
    by (auto simp: build_generator_model_def)
  from build_unet_layers[OF b] n nm show ?thesis
    by (clarsimp simp: count_layers_simps is_concatenate_def is_upsampling_def conv_kwargs_def
          sum_list_triv)
qed

theorem unet_generator_no_concatenation_witness:
  "\<exists>m. build_generator_model (keras_framework True) [128, 128] 3 3 64 ''unet_128'' ''batch'' False
          = Inr (ModelObj m) \<and>
        count_layers is_concatenate (model_layers m) = 0 \<and>
        count_layers is_upsampling (model_layers m) = 6"
proof -
  have "\<not> isl (build_generator_model (keras_framework True) [128, 128] 3 3 64 ''unet_128'' ''batch''
                 False)"
    by code_simp
  then obtain obj where ev:
    "build_generator_model (keras_framework True) [128, 128] 3 3 64 ''unet_128'' ''batch'' False
       = Inr obj"
    by (cases "build_generator_model (keras_framework True) [128, 128] 3 3 64 ''unet_128'' ''batch''
                 False") auto
  have nm: "''unet_128'' = ''unet_128'' \<or> ''unet_128'' = ''unet_256''" by simp
  from unet_generator_no_concatenation[OF nm ev] ev show ?thesis by auto
qed

text \<open>
  For \<^verbatim>\<open>'unet_128'\<close> on a \<open>128 \<times> 128\<close> patch, under a framework that accepts every
  call, a model is returned; it has six upsampling layers and no concatenation.
\<close>

theorem unet_generator_no_skip_connections_example:
  "map_option (count_layers is_concatenate)
     (result_layers (build_generator_model (keras_framework True) [128, 128] 3 3 64 ''unet_128''
        ''batch'' False)) = Some 0 \<and>
   map_option (count_layers is_upsampling)
     (result_layers (build_generator_model (keras_framework True) [128, 128] 3 3 64 ''unet_128''
        ''batch'' False)) = Some 6"
  by code_simp

subsection \<open>The ResNet generator\<close>

text \<open>
  C2. \<^verbatim>\<open>build_resnet\<close> passes the four-element tuple \<^verbatim>\<open>outer_padding_size\<close> to
  \<^verbatim>\<open>ZeroPadding2D\<close> (line 131). Under every framework that refuses this padding
  argument, as Keras does, \<^verbatim>\<open>build_generator_model\<close> raises for both ResNet model
  names, so no ResNet generator is built. Under no framework does it return a model with
  as many stride-2 transposed convolutions as stride-2 convolutions: the loops create six
  (nine) of the former and two of the latter.
\<close>

theorem resnet_generator_never_balanced:
  "(\<not> accepts fw (New (ZeroPadding2D [3, 3, 3, 3])) \<longrightarrow>
      (\<exists>e. build_generator_model fw patch_size input_nc output_nc init_num_filters
              ''resnet_6blocks'' norm_layer use_dropout = Inl e) \<and>
      (\<exists>e. build_generator_model fw patch_size input_nc output_nc init_num_filters
              ''resnet_9blocks'' norm_layer use_dropout = Inl e)) \<and>
   \<not> (\<exists>m. build_generator_model fw patch_size input_nc output_nc init_num_filters
              ''resnet_6blocks'' norm_layer use_dropout = Inr (ModelObj m) \<and>
            count_layers is_upsampling (model_layers m)
              = count_layers is_downsampling (model_layers m)) \<and>
   \<not> (\<exists>m. build_generator_model fw patch_size input_nc output_nc init_num_filters
              ''resnet_9blocks'' norm_layer use_dropout = Inr (ModelObj m) \<and>
            count_layers is_upsampling (model_layers m)
              = count_layers is_downsampling (model_layers m))"
proof (intro conjI impI)
  assume r: "\<not> accepts fw (New (ZeroPadding2D [3, 3, 3, 3]))"
  from build_resnet_padding_refused[OF r]
  show "\<exists>e. build_generator_model fw patch_size input_nc output_nc init_num_filters
              ''resnet_6blocks'' norm_layer use_dropout = Inl e"
    by (auto simp: build_generator_model_def isl_def)
  from build_resnet_padding_refused[OF r]
  show "\<exists>e. build_generator_model fw patch_size input_nc output_nc init_num_filters
              ''resnet_9blocks'' norm_layer use_dropout = Inl e"
    by (auto simp: build_generator_model_def isl_def)
next
  show "\<not> (\<exists>m. build_generator_model fw patch_size input_nc output_nc init_num_filters
              ''resnet_6blocks'' norm_layer use_dropout = Inr (ModelObj m) \<and>
            count_layers is_upsampling (model_layers m)
              = count_layers is_downsampling (model_layers m))"
  proof
    assume "\<exists>m. build_generator_model fw patch_size input_nc output_nc init_num_filters
              ''resnet_6blocks'' norm_layer use_dropout = Inr (ModelObj m) \<and>
            count_layers is_upsampling (model_layers m)
              = count_layers is_downsampling (model_layers m)"
    then obtain m where b: "build_resnet fw patch_size input_nc output_nc init_num_filters
        norm_layer ''zero'' 6 use_dropout (1 / 2) = Inr (ModelObj m)"
      and eq: "count_layers is_upsampling (model_layers m)
              = count_layers is_downsampling (model_layers m)"
      by (auto simp: build_generator_model_def)
    from build_resnet_layers[OF b] eq show False
      by (clarsimp simp: count_layers_simps is_downsampling_def is_upsampling_def conv_kwargs_def
            sum_list_triv)
  qed
next
  show "\<not> (\<exists>m. build_generator_model fw patch_size input_nc output_nc init_num_filters
              ''resnet_9blocks'' norm_layer use_dropout = Inr (ModelObj m) \<and>
            count_layers is_upsampling (model_layers m)
              = count_layers is_downsampling (model_layers m))"
  proof
    assume "\<exists>m. build_generator_model fw patch_size input_nc output_nc init_num_filters
              ''resnet_9blocks'' norm_layer use_dropout = Inr (ModelObj m) \<and>
            count_layers is_upsampling (model_layers m)
              = count_layers is_downsampling (model_layers m)"
    then obtain m where b: "build_resnet fw patch_size input_nc output_nc init_num_filters
        norm_layer ''zero'' 9 use_dropout (1 / 2) = Inr (ModelObj m)"
      and eq: "count_layers is_upsampling (model_layers m)
              = count_layers is_downsampling (model_layers m)"
      by (auto simp: build_generator_model_def)
    from build_resnet_layers[OF b] eq show False
      by (clarsimp simp: count_layers_simps is_downsampling_def is_upsampling_def conv_kwargs_def
            sum_list_triv)
  qed
qed

theorem resnet_generator_never_balanced_witness:
  "\<not> accepts (keras_framework True) (New (ZeroPadding2D [3, 3, 3, 3])) \<and>
   build_generator_model (keras_framework True) [256, 256] 3 3 64 ''resnet_6blocks'' ''batch''
     False = Inl FrameworkError \<and>
   build_generator_model (keras_framework True) [256, 256] 3 3 64 ''resnet_9blocks'' ''batch''
     False = Inl FrameworkError"
proof -
  have r: "\<not> accepts (keras_framework True) (New (ZeroPadding2D [3, 3, 3, 3]))"
    by (simp add: keras_framework_def keras_accepts_def valid_layer_def)
  from resnet_generator_never_balanced[of "keras_framework True" "[256, 256]" 3 3 64 "''batch''"
         False] r
  obtain e6 e9 where
    "build_generator_model (keras_framework True) [256, 256] 3 3 64 ''resnet_6blocks'' ''batch''
       False = Inl e6"
    "build_generator_model (keras_framework True) [256, 256] 3 3 64 ''resnet_9blocks'' ''batch''
       False = Inl e9"
    by blast
  moreover have "\<not> isl (build_generator_model (keras_framework True) [256, 256] 3 3 64
      ''resnet_6blocks'' ''batch'' False) \<or> build_generator_model (keras_framework True)
      [256, 256] 3 3 64 ''resnet_6blocks'' ''batch'' False = Inl FrameworkError"
    by code_simp
  moreover have "\<not> isl (build_generator_model (keras_framework True) [256, 256] 3 3 64
      ''resnet_9blocks'' ''batch'' False) \<or> build_generator_model (keras_framework True)
      [256, 256] 3 3 64 ''resnet_9blocks'' ''batch'' False = Inl FrameworkError"
    by code_simp
  ultimately show ?thesis using r by auto
qed

text \<open>
  C3. With \<^verbatim>\<open>use_dropout\<close> set, \<^verbatim>\<open>build_conv_block\<close> binds \<^verbatim>\<open>act\<close> to a
  \<^verbatim>\<open>Dropout\<close> layer object and calls the padding layer on it, which raises. So
  \<^verbatim>\<open>build_generator_model\<close> raises for both ResNet model names whenever the dropout
  flag is set, whatever the framework accepts and whatever the other arguments are.
\<close>

theorem resnet_generator_dropout_raises:
  "(\<exists>e. build_generator_model fw patch_size input_nc output_nc init_num_filters ''resnet_6blocks''
          norm_layer True = Inl e) \<and>
   (\<exists>e. build_generator_model fw patch_size input_nc output_nc init_num_filters ''resnet_9blocks''
          norm_layer True = Inl e)"
proof -
  have six: "isl (build_resnet fw patch_size input_nc output_nc init_num_filters norm_layer
                   ''zero'' 6 True (1 / 2))"
    by (rule build_resnet_dropout_fails) simp
  have nine: "isl (build_resnet fw patch_size input_nc output_nc init_num_filters norm_layer
                   ''zero'' 9 True (1 / 2))"
    by (rule build_resnet_dropout_fails) simp
  from six nine show ?thesis
    by (auto simp: build_generator_model_def isl_def)
qed

subsection \<open>Dispatch on the model name\<close>




subsection \<open>Unrecognized names\<close>

text \<open>
  C8. For every \<^verbatim>\<open>layer_name\<close> other than \<^verbatim>\<open>'batch'\<close> and \<^verbatim>\<open>'instance'\<close>,
  \<^verbatim>\<open>get_norm_layer\<close> returns a \<^verbatim>\<open>NotImplementedError\<close> value and does not raise.
  \<^verbatim>\<open>build_resnet\<close> with a \<^verbatim>\<open>padding_layer\<close> other than \<^verbatim>\<open>'zero'\<close> returns a
  \<^verbatim>\<open>NotImplementedError\<close> value, unless \<^verbatim>\<open>norm_layer\<close> is \<^verbatim>\<open>'instance'\<close> and
  \<^verbatim>\<open>keras_contrib\<close> is not installed: \<^verbatim>\<open>get_norm_layer\<close> is called first and raises
  \<^verbatim>\<open>ImportError\<close> then.
\<close>

theorem unrecognized_names_returned:
  "(layer_name \<noteq> ''batch'' \<and> layer_name \<noteq> ''instance'' \<longrightarrow>
      get_norm_layer fw layer_name = Inr (ExcValue NotImplementedError)) \<and>
   (padding_layer \<noteq> ''zero'' \<longrightarrow>
      build_resnet fw patch_size input_nc output_nc init_num_filters norm_layer padding_layer
        n_blocks use_dropout dropout_rate =
      (if norm_layer = ''instance'' \<and> \<not> contrib_installed fw then Inl ImportError
       else Inr (ExcObj NotImplementedError)))"
  by (auto simp: get_norm_layer_def build_resnet_def Let_def)

theorem unrecognized_names_returned_witness:
  "get_norm_layer (keras_framework True) ''group'' = Inr (ExcValue NotImplementedError) \<and>
   build_resnet (keras_framework True) [256, 256] 3 3 64 ''batch'' ''reflect'' 6 False (1 / 2)
     = Inr (ExcObj NotImplementedError)"
  using unrecognized_names_returned[of "''group''" "keras_framework True" "''reflect''" "[256, 256]" 3 3
          64 "''batch''" 6 False "1 / 2"]
  by simp

text \<open>
  \<^verbatim>\<open>build_resnet\<close> with \<^verbatim>\<open>padding_layer='reflect'\<close> and \<^verbatim>\<open>norm_layer='instance'\<close>,
  where \<^verbatim>\<open>keras_contrib\<close> is not installed: \<^verbatim>\<open>ImportError\<close> is raised, nothing is
  returned.
\<close>

theorem resnet_padding_import_error:
  "build_resnet (keras_framework False) [256, 256] 3 3 64 ''instance'' ''reflect'' 6 False (1 / 2)
     = Inl ImportError"
  by (simp add: build_resnet_def get_norm_layer_def keras_framework_def Let_def)

subsection \<open>The pixel discriminator\<close>

text \<open>
  C5. For \<^verbatim>\<open>n_layers = 0\<close> line 201 passes the boolean \<^verbatim>\<open>use_sigmoid\<close> as the
  \<^verbatim>\<open>final_activation\<close> of \<^verbatim>\<open>build_pixel_gan\<close>, which hands it to its last
  \<^verbatim>\<open>Conv2D\<close> as \<^verbatim>\<open>activation\<close>. Under every framework that refuses this
  convolution, as Keras refuses a boolean activation, \<^verbatim>\<open>build_discriminator_model\<close>
  raises and returns no pixel discriminator. Under no framework does it return a model
  whose final convolution has one filter, or \<^verbatim>\<open>'sigmoid'\<close> or \<^verbatim>\<open>None\<close> as its
  activation.
\<close>

theorem pixel_discriminator_raises:
  "(\<not> accepts fw (New (Conv2D ((conv_kwargs (PyInt (int init_num_filters * 2)) (1, 1))
         \<lparr>padding := Some ''same'', use_bias := Some (norm_layer = ''instance''),
          activation := PyBool use_sigmoid\<rparr>))) \<longrightarrow>
      (\<exists>e. build_discriminator_model fw patch_size input_nc init_num_filters 0 norm_layer
              use_sigmoid = Inl e)) \<and>
   \<not> (\<exists>m a. build_discriminator_model fw patch_size input_nc init_num_filters 0 norm_layer
              use_sigmoid = Inr (ModelObj m) \<and>
            last (model_layers m) = Conv2D a \<and>
            (filters a = PyInt 1 \<or> activation a = PyStr ''sigmoid'' \<or> activation a = PyNone))"
proof (intro conjI impI)
  assume r: "\<not> accepts fw (New (Conv2D ((conv_kwargs (PyInt (int init_num_filters * 2)) (1, 1))
         \<lparr>padding := Some ''same'', use_bias := Some (norm_layer = ''instance''),
          activation := PyBool use_sigmoid\<rparr>)))"
  have "isl (build_discriminator_model fw patch_size input_nc init_num_filters 0 norm_layer
               use_sigmoid)"
  proof (cases "get_norm_layer fw norm_layer")
    case (Inl e)
    then show ?thesis
      by (simp add: build_discriminator_model_def build_nlayer_discriminator_def Let_def)
  next
    case (Inr nl)
    with build_pixel_gan_refused[OF r] show ?thesis
      by (simp add: build_discriminator_model_def build_nlayer_discriminator_def Let_def)
  qed
  then show "\<exists>e. build_discriminator_model fw patch_size input_nc init_num_filters 0 norm_layer
              use_sigmoid = Inl e"
    by (auto simp: isl_def)
next
  show "\<not> (\<exists>m a. build_discriminator_model fw patch_size input_nc init_num_filters 0 norm_layer
              use_sigmoid = Inr (ModelObj m) \<and>
            last (model_layers m) = Conv2D a \<and>
            (filters a = PyInt 1 \<or> activation a = PyStr ''sigmoid'' \<or> activation a = PyNone))"
  proof
    assume "\<exists>m a. build_discriminator_model fw patch_size input_nc init_num_filters 0 norm_layer
              use_sigmoid = Inr (ModelObj m) \<and>
            last (model_layers m) = Conv2D a \<and>
            (filters a = PyInt 1 \<or> activation a = PyStr ''sigmoid'' \<or> activation a = PyNone)"
    then obtain m a where
      b: "build_discriminator_model fw patch_size input_nc init_num_filters 0 norm_layer
            use_sigmoid = Inr (ModelObj m)"
      and l: "last (model_layers m) = Conv2D a"
      and c: "filters a = PyInt 1 \<or> activation a = PyStr ''sigmoid'' \<or> activation a = PyNone"
      by blast
    from b obtain nl where
      "build_pixel_gan fw
        (if channels_first fw then input_nc # patch_size else patch_size @ [input_nc])
        init_num_filters nl (if channels_first fw then 1 else - 1) (norm_layer = ''instance'')
        (PyBool use_sigmoid) = Inr (ModelObj m)"
      by (cases "get_norm_layer fw norm_layer")
         (simp_all add: build_discriminator_model_def build_nlayer_discriminator_def Let_def)
    from build_pixel_gan_layers[OF this] l
    have "a = (conv_kwargs (PyInt (int init_num_filters * 2)) (1, 1))
               \<lparr>padding := Some ''same'', use_bias := Some (norm_layer = ''instance''),
                activation := PyBool use_sigmoid\<rparr>"
      by simp
    with c show False by (simp add: conv_kwargs_def) presburger
  qed
qed

theorem pixel_discriminator_raises_witness:
  "\<not> accepts (keras_framework True) (New (Conv2D ((conv_kwargs (PyInt (int 64 * 2)) (1, 1))
         \<lparr>padding := Some ''same'', use_bias := Some (''batch'' = ''instance''),
          activation := PyBool True\<rparr>))) \<and>
   build_discriminator_model (keras_framework True) [256, 256] 3 64 0 ''batch'' True
     = Inl FrameworkError"
proof -
  have r: "\<not> accepts (keras_framework True) (New (Conv2D ((conv_kwargs (PyInt (int 64 * 2)) (1, 1))
         \<lparr>padding := Some ''same'', use_bias := Some (''batch'' = ''instance''),
          activation := PyBool True\<rparr>)))"
    by (simp add: keras_framework_def keras_accepts_def valid_layer_def valid_conv_def
          valid_activation_def conv_kwargs_def)
  from pixel_discriminator_raises[where fw = "keras_framework True" and init_num_filters = 64
         and norm_layer = "''batch''" and use_sigmoid = True and patch_size = "[256, 256]"
         and input_nc = 3] r
  obtain e where
    "build_discriminator_model (keras_framework True) [256, 256] 3 64 0 ''batch'' True = Inl e"
    by blast
  moreover have "\<not> isl (build_discriminator_model (keras_framework True) [256, 256] 3 64 0
      ''batch'' True) \<or> build_discriminator_model (keras_framework True) [256, 256] 3 64 0
      ''batch'' True = Inl FrameworkError"
    by code_simp
  ultimately show ?thesis using r by auto
qed

subsection \<open>The n-layer discriminator\<close>

text \<open>
  C6. With \<^verbatim>\<open>norm_layer='batch'\<close>, \<^verbatim>\<open>build_nlayer_discriminator\<close> passes
  \<^verbatim>\<open>use_bias=False\<close> to its convolutions, except to the final one (line 222), which is
  created without \<^verbatim>\<open>use_bias\<close> and keeps the framework's default, a bias: in every
  model returned for \<^verbatim>\<open>n_layers >= 1\<close> exactly one convolution has a bias, and it is the
  last layer.
\<close>

theorem nlayer_discriminator_batch_bias:
  assumes n: "1 \<le> n_layers"
    and b: "build_discriminator_model fw patch_size input_nc init_num_filters n_layers ''batch''
              use_sigmoid = Inr obj"
  shows "\<exists>m. obj = ModelObj m \<and>
           last (model_layers m) =
             Conv2D ((conv_kwargs (PyInt 1) (4, 4))
               \<lparr>padding := Some ''same'',
                activation := (if use_sigmoid then PyStr ''sigmoid'' else PyNone)\<rparr>) \<and>
           bias_enabled (last (model_layers m)) \<and>
           count_layers bias_enabled (model_layers m) = 1"
proof -
  from n have n0: "n_layers \<noteq> 0" and n1: "n_layers \<noteq> - 1" by auto
  from b have b': "build_nlayer_discriminator fw patch_size input_nc init_num_filters n_layers
      ''batch'' use_sigmoid False (1 / 2) = Inr obj"
    by (simp add: build_discriminator_model_def)
  from build_nlayer_discriminator_layers[OF n0 n1 b'] show ?thesis
    by (clarsimp simp: count_layers_simps bias_enabled_def conv_kwargs_def sum_list_triv)
qed

theorem nlayer_discriminator_batch_bias_witness:
  "\<exists>m. build_discriminator_model (keras_framework True) [256, 256] 3 64 3 ''batch'' False
          = Inr (ModelObj m) \<and>
        last (model_layers m) =
          Conv2D \<lparr>filters = PyInt 1, kernel_size = (4, 4), strides = None,
                  padding = Some ''same'', use_bias = None, activation = PyNone\<rparr> \<and>
        bias_enabled (last (model_layers m)) \<and>
        count_layers bias_enabled (model_layers m) = 1"
proof -
  have "\<not> isl (build_discriminator_model (keras_framework True) [256, 256] 3 64 3 ''batch'' False)"
    by code_simp
  then obtain obj where ev:
    "build_discriminator_model (keras_framework True) [256, 256] 3 64 3 ''batch'' False = Inr obj"
    by (cases "build_discriminator_model (keras_framework True) [256, 256] 3 64 3 ''batch'' False")
       auto
  have le: "(1::int) \<le> 3" by simp
  from nlayer_discriminator_batch_bias[OF le ev] ev show ?thesis
    by (auto simp: conv_kwargs_def)
qed

text \<open>
  C9. For \<^verbatim>\<open>n_layers = -1\<close>, \<^verbatim>\<open>build_discriminator_model\<close> never returns: every call
  raises. When nothing raises earlier (the patch size is not empty, the normalization
  layer is available and the framework accepts the first three layers),
  \<^verbatim>\<open>range(1, n_layers)\<close> raises \<^verbatim>\<open>TypeError\<close> on the float bound.
\<close>

theorem image_discriminator_never_returns:
  "(\<exists>e. build_discriminator_model fw patch_size input_nc init_num_filters (- 1) norm_layer
          use_sigmoid = Inl e) \<and>
   (patch_size \<noteq> [] \<and> (norm_layer = ''instance'' \<longrightarrow> contrib_installed fw) \<and>
    accepts fw (New (InputLayer
      (if channels_first fw then input_nc # patch_size else patch_size @ [input_nc]) None)) \<and>
    accepts fw (SeqAdd [] (InputLayer
      (if channels_first fw then input_nc # patch_size else patch_size @ [input_nc]) None)) \<and>
    accepts fw (New (Conv2D ((conv_kwargs (PyInt (int init_num_filters)) (4, 4))
      \<lparr>strides := Some (2, 2), padding := Some ''same'',
       use_bias := Some (norm_layer = ''instance'')\<rparr>))) \<and>
    accepts fw (SeqAdd
      [InputLayer
         (if channels_first fw then input_nc # patch_size else patch_size @ [input_nc]) None]
      (Conv2D ((conv_kwargs (PyInt (int init_num_filters)) (4, 4))
      \<lparr>strides := Some (2, 2), padding := Some ''same'',
       use_bias := Some (norm_layer = ''instance'')\<rparr>))) \<and>
    accepts fw (New (LeakyReLU (2 / 10))) \<and>
    accepts fw (SeqAdd
      [InputLayer
         (if channels_first fw then input_nc # patch_size else patch_size @ [input_nc]) None,
       Conv2D ((conv_kwargs (PyInt (int init_num_filters)) (4, 4))
         \<lparr>strides := Some (2, 2), padding := Some ''same'',
          use_bias := Some (norm_layer = ''instance'')\<rparr>)]
      (LeakyReLU (2 / 10)))
      \<longrightarrow> build_discriminator_model fw patch_size input_nc init_num_filters (- 1) norm_layer
            use_sigmoid = Inl TypeError)"
proof
  have "isl (build_discriminator_model fw patch_size input_nc init_num_filters (- 1) norm_layer
               use_sigmoid)"
  proof (cases "get_norm_layer fw norm_layer")
    case (Inl e)
    then show ?thesis
      by (simp add: build_discriminator_model_def build_nlayer_discriminator_def Let_def)
  next
    case (Inr nl)
    show ?thesis
    proof (cases patch_size)
      case Nil
      with Inr show ?thesis
        by (simp add: build_discriminator_model_def build_nlayer_discriminator_def Let_def)
    next
      case (Cons p ps)
      with Inr show ?thesis
        by (simp add: build_discriminator_model_def build_nlayer_discriminator_def Let_def
              range_float_after_three_adds)
    qed
  qed
  then show "\<exists>e. build_discriminator_model fw patch_size input_nc init_num_filters (- 1)
                 norm_layer use_sigmoid = Inl e"
    by (auto simp: isl_def)
next
  show "patch_size \<noteq> [] \<and> (norm_layer = ''instance'' \<longrightarrow> contrib_installed fw) \<and>
    accepts fw (New (InputLayer
      (if channels_first fw then input_nc # patch_size else patch_size @ [input_nc]) None)) \<and>
    accepts fw (SeqAdd [] (InputLayer
      (if channels_first fw then input_nc # patch_size else patch_size @ [input_nc]) None)) \<and>
    accepts fw (New (Conv2D ((conv_kwargs (PyInt (int init_num_filters)) (4, 4))
      \<lparr>strides := Some (2, 2), padding := Some ''same'',
       use_bias := Some (norm_layer = ''instance'')\<rparr>))) \<and>
    accepts fw (SeqAdd
      [InputLayer
         (if channels_first fw then input_nc # patch_size else patch_size @ [input_nc]) None]
      (Conv2D ((conv_kwargs (PyInt (int init_num_filters)) (4, 4))
      \<lparr>strides := Some (2, 2), padding := Some ''same'',
       use_bias := Some (norm_layer = ''instance'')\<rparr>))) \<and>
    accepts fw (New (LeakyReLU (2 / 10))) \<and>
    accepts fw (SeqAdd
      [InputLayer
         (if channels_first fw then input_nc # patch_size else patch_size @ [input_nc]) None,
       Conv2D ((conv_kwargs (PyInt (int init_num_filters)) (4, 4))
         \<lparr>strides := Some (2, 2), padding := Some ''same'',
          use_bias := Some (norm_layer = ''instance'')\<rparr>)]
      (LeakyReLU (2 / 10)))
      \<longrightarrow> build_discriminator_model fw patch_size input_nc init_num_filters (- 1) norm_layer
            use_sigmoid = Inl TypeError"
    by (cases patch_size)
       (auto simp: build_discriminator_model_def build_nlayer_discriminator_def Let_def
          get_norm_layer_def run_seq_def and_then_def seq_add_def raise_def)
qed

theorem image_discriminator_never_returns_witness:
  "build_discriminator_model (keras_framework True) [256, 256] 3 64 (- 1) ''batch'' False
     = Inl TypeError"
  using image_discriminator_never_returns[where fw = "keras_framework True"
          and patch_size = "[256, 256]" and input_nc = 3 and init_num_filters = 64
          and norm_layer = "''batch''" and use_sigmoid = False]
  by (simp add: keras_framework_def keras_accepts_def valid_layer_def valid_conv_def
        valid_activation_def conv_kwargs_def)

text \<open>
  C10. In every model returned by \<^verbatim>\<open>build_nlayer_discriminator\<close> with an integer
  \<^verbatim>\<open>n_layers >= 1\<close>, the convolutions at depth \<open>n = 0, ..., n_layers\<close> have
  \<^verbatim>\<open>init_num_filters * min(2 ** n, 8)\<close> filters, which is never more than
  \<^verbatim>\<open>8 * init_num_filters\<close>, and the final convolution has exactly one filter.
\<close>

theorem nlayer_discriminator_filters:
  assumes n: "1 \<le> n_layers"
    and b: "build_nlayer_discriminator fw patch_size input_nc init_num_filters n_layers norm_layer
              use_sigmoid use_dropout dropout_rate = Inr obj"
  shows "\<exists>m. obj = ModelObj m \<and>
           conv_filters (model_layers m) =
             map (\<lambda>k. PyInt (int init_num_filters * min (2 ^ k) 8)) [0 ..< Suc (nat n_layers)]
             @ [PyInt 1] \<and>
           (\<forall>k < Suc (nat n_layers).
              int init_num_filters * min (2 ^ k) 8 \<le> 8 * int init_num_filters)"
proof -
  from n have n0: "n_layers \<noteq> 0" and n1: "n_layers \<noteq> - 1" by auto
  have "\<exists>m. obj = ModelObj m \<and> conv_filters (model_layers m) =
        PyInt (int init_num_filters) # map (scaled_filters init_num_filters) [1 .. n_layers - 1]
        @ [scaled_filters init_num_filters n_layers, PyInt 1]"
    using build_nlayer_discriminator_layers[OF n0 n1 b]
    by (clarsimp simp: conv_filters_simps conv_filters_concat_map concat_map_singleton
          conv_kwargs_def)
  then obtain m
    where obj: "obj = ModelObj m"
      and f: "conv_filters (model_layers m) =
        PyInt (int init_num_filters) # map (scaled_filters init_num_filters) [1 .. n_layers - 1]
        @ [scaled_filters init_num_filters n_layers, PyInt 1]"
    by blast
  from n have pos: "0 < nat n_layers" by simp
  from n have loop: "map (scaled_filters init_num_filters) [1 .. n_layers - 1] =
      map (\<lambda>k. PyInt (int init_num_filters * min (2 ^ k) 8)) [1 ..< nat n_layers]"
    by (simp add: upto_as_upt scaled_filters_def)
  from n have lastc: "scaled_filters init_num_filters n_layers =
      PyInt (int init_num_filters * min (2 ^ nat n_layers) 8)"
    by (simp add: scaled_filters_def)
  have filters: "conv_filters (model_layers m) =
      map (\<lambda>k. PyInt (int init_num_filters * min (2 ^ k) 8)) [0 ..< Suc (nat n_layers)]
      @ [PyInt 1]"
    unfolding f loop lastc upt_0_Suc_split[OF pos] by simp
  have bound: "\<forall>k < Suc (nat n_layers).
      int init_num_filters * min (2 ^ k) 8 \<le> 8 * int init_num_filters"
    by (simp add: mult.commute mult_left_mono)
  from obj filters bound show ?thesis by blast
qed

theorem nlayer_discriminator_filters_witness:
  "\<exists>m. build_nlayer_discriminator (keras_framework True) [256, 256] 3 64 3 ''batch'' False False (1 / 2)
          = Inr (ModelObj m) \<and>
        conv_filters (model_layers m) = [PyInt 64, PyInt 128, PyInt 256, PyInt 512, PyInt 1]"
proof -
  have "\<not> isl (build_nlayer_discriminator (keras_framework True) [256, 256] 3 64 3 ''batch'' False
                 False (1 / 2))"
    by code_simp
  then obtain obj where ev:
    "build_nlayer_discriminator (keras_framework True) [256, 256] 3 64 3 ''batch'' False False (1 / 2)
       = Inr obj"
    by (cases "build_nlayer_discriminator (keras_framework True) [256, 256] 3 64 3 ''batch'' False
                 False (1 / 2)") auto
  have le: "(1::int) \<le> 3" by simp
  from nlayer_discriminator_filters[OF le ev] obtain m where
    "obj = ModelObj m"
    "conv_filters (model_layers m) =
       map (\<lambda>k. PyInt (int 64 * min (2 ^ k) 8)) [0 ..< Suc (nat 3)] @ [PyInt 1]"
    by blast
  with ev show ?thesis by (simp add: upt_conv_Cons)
qed

end
